theory Spec2Isabelle
  imports Complex_Main
begin

section \<open>Python values used by run\_glue.py\<close>

text \<open>
  Exceptions of the Python source are values: every function of the model that can raise
  returns \<open>error + 'a\<close>, with \<open>Inl\<close> for the exception.
\<close>

datatype error =
    Exception string
  | ValueError string
  | IndexError
  | KeyError
  | ZeroDivisionError
  | AttributeError
  | TypeError
  | NameError
  | SystemExit int

text \<open>Python list indexing \<open>xs[i]\<close>: a negative index counts from the end.\<close>

definition py_index :: "nat \<Rightarrow> int \<Rightarrow> nat option" where
  "py_index n i =
     (if 0 \<le> i \<and> i < int n then Some (nat i)
      else if - int n \<le> i \<and> i < 0 then Some (nat (int n + i))
      else None)"

text \<open>Python \<open>a // b\<close> and \<open>a % b\<close> on ints: floor division, as \<open>div\<close> and \<open>mod\<close> on
  \<open>int\<close>, except that a zero divisor raises.\<close>

definition py_floordiv :: "int \<Rightarrow> int \<Rightarrow> error + int" where
  "py_floordiv a b = (if b = 0 then Inl ZeroDivisionError else Inr (a div b))"

definition py_mod :: "int \<Rightarrow> int \<Rightarrow> error + int" where
  "py_mod a b = (if b = 0 then Inl ZeroDivisionError else Inr (a mod b))"

section \<open>collate\_func: per-task sub-batches (train, lines 183-212)\<close>

text \<open>
  An instance of the multi-task dataset is a tuple whose last component is the index of its
  task; the tensors before it are opaque to the scheduler.
\<close>

record 'a mtl_instance =
  tensors :: 'a
  task_index :: int

text \<open>The loop \<open>for instance in batch: batches_by_task[instance[-1]].append(instance)\<close>.\<close>

fun append_by_task ::
  "'a mtl_instance list list \<Rightarrow> 'a mtl_instance list \<Rightarrow> error + 'a mtl_instance list list" where
  "append_by_task batches_by_task [] = Inr batches_by_task"
| "append_by_task batches_by_task (inst # rest) =
     (case py_index (length batches_by_task) (task_index inst) of
        None \<Rightarrow> Inl IndexError
      | Some cur_index \<Rightarrow>
          append_by_task
            (batches_by_task[cur_index := batches_by_task ! cur_index @ [inst]]) rest)"

text \<open>
  Lines 191-205: the buckets, one per entry of \<open>args.data_dir_list\<close> (\<open>n\<close> of them), the
  emptiness check and the removal of empty buckets.
\<close>

definition group_by_task :: "nat \<Rightarrow> 'a mtl_instance list \<Rightarrow> error + 'a mtl_instance list list" where
  "group_by_task n batch =
     (case append_by_task (replicate n []) batch of
        Inl e \<Rightarrow> Inl e
      | Inr batches_by_task \<Rightarrow>
          (let batch_lens = map length batches_by_task in
           if sum_list batch_lens = 0 then Inl (Exception ''Empty task lists'')
           else if 0 \<in> set batch_lens
             then Inr (filter (\<lambda>cur_batch. length cur_batch \<noteq> 0) batches_by_task)
           else Inr batches_by_task))"

text \<open>
  Lines 207-212: every remaining bucket goes through torch's \<open>default_collate\<close>, an
  external function taken as a parameter.
\<close>

definition collate_func ::
  "('a mtl_instance list \<Rightarrow> 'b) \<Rightarrow> nat \<Rightarrow> 'a mtl_instance list \<Rightarrow> error + 'b list" where
  "collate_func default_collate n batch =
     (case group_by_task n batch of
        Inl e \<Rightarrow> Inl e
      | Inr batches_by_task \<Rightarrow> Inr (map default_collate batches_by_task))"

text \<open>The dense loader's \<open>collate_fn\<close> (lines 226-228): one merged batch.\<close>

definition dense_collate :: "('a mtl_instance list \<Rightarrow> 'b) \<Rightarrow> 'a mtl_instance list \<Rightarrow> error + 'b list" where
  "dense_collate default_collate x = Inr [default_collate x]"


section \<open>Strings and paths\<close>

text \<open>\<open>s.split(c)\<close> for a one-character separator: never an empty list.\<close>

fun py_split :: "char \<Rightarrow> string \<Rightarrow> string list" where
  "py_split c [] = [[]]"
| "py_split c (x # xs) =
     (if x = c then [] # py_split c xs
      else (case py_split c xs of
              [] \<Rightarrow> [[x]]
            | w # ws \<Rightarrow> (x # w) # ws))"

text \<open>\<open>sub in s\<close> on strings.\<close>

fun py_in :: "string \<Rightarrow> string \<Rightarrow> bool" where
  "py_in sub [] = (sub = [])"
| "py_in sub (c # cs) = (take (length sub) (c # cs) = sub \<or> py_in sub cs)"

text \<open>\<open>os.path.join(a, b)\<close> with two arguments, on POSIX paths.\<close>

definition path_join :: "string \<Rightarrow> string \<Rightarrow> string" where
  "path_join a b =
     (if b \<noteq> [] \<and> hd b = CHR ''/'' then b
      else if a = [] \<or> last a = CHR ''/'' then a @ b
      else a @ ''/'' @ b)"

text \<open>\<open>"{}".format(n)\<close> and \<open>str(n)\<close> for an int: decimal digits, \<open>-\<close> before a negative
  number.\<close>

definition digit_char :: "nat \<Rightarrow> char" where
  "digit_char d = ''0123456789'' ! d"

fun str_nat :: "nat \<Rightarrow> string" where
  "str_nat n = (if n < 10 then [digit_char n] else str_nat (n div 10) @ [digit_char (n mod 10)])"

declare str_nat.simps [simp del]

definition str_int :: "int \<Rightarrow> string" where
  "str_int i = (if i < 0 then CHR ''-'' # str_nat (nat (- i)) else str_nat (nat i))"

text \<open>
  \<open>int(s)\<close> on a string, base 10: surrounding whitespace is stripped, one sign is allowed,
  and the digits may be separated by single underscores; anything else is a ValueError.
  (Strings are byte strings here: the non-ASCII decimal digits Python also accepts are
  outside the model.)
\<close>

definition is_digit :: "char \<Rightarrow> bool" where
  "is_digit c = (c \<in> set ''0123456789'')"

definition digit_val :: "char \<Rightarrow> nat" where
  "digit_val c = of_char c - 48"

definition is_space :: "char \<Rightarrow> bool" where
  "is_space c = (c \<in> set [CHR '' '', CHR 0x09, CHR 0x0A, CHR 0x0B, CHR 0x0C, CHR 0x0D,
                          CHR 0x1C, CHR 0x1D, CHR 0x1E, CHR 0x1F])"

definition py_strip :: "string \<Rightarrow> string" where
  "py_strip s = rev (dropWhile is_space (rev (dropWhile is_space s)))"

fun parse_digits :: "nat \<Rightarrow> bool \<Rightarrow> string \<Rightarrow> nat option" where
  "parse_digits acc after_digit [] = (if after_digit then Some acc else None)"
| "parse_digits acc after_digit (c # cs) =
     (if is_digit c then parse_digits (10 * acc + digit_val c) True cs
      else if c = CHR ''_'' \<and> after_digit then parse_digits acc False cs
      else None)"

definition py_int :: "string \<Rightarrow> error + int" where
  "py_int s =
     (let t = py_strip s;
          (neg, body) = (case t of
                 [] \<Rightarrow> (False, [])
               | c # cs \<Rightarrow> if c = CHR ''-'' then (True, cs)
                           else if c = CHR ''+'' then (False, cs) else (False, t))
      in case parse_digits 0 False body of
           None \<Rightarrow> Inl (ValueError ''invalid literal for int() with base 10'')
         | Some n \<Rightarrow> Inr (if neg then - int n else int n))"

text \<open>\<open>int(x)\<close> on a float: truncation towards zero.\<close>

definition int_of_float :: "real \<Rightarrow> int" where
  "int_of_float x = (if 0 \<le> x then \<lfloor>x\<rfloor> else \<lceil>x\<rceil>)"

section \<open>The argument namespace and the environment\<close>

text \<open>
  \<open>args\<close> is one mutable namespace in the source; the model has one record with the
  fields the modelled functions read. \<open>task_names_arg\<close> is the string given on the command
  line, \<open>task_names\<close> the list main replaces it with.
\<close>

record args =
  output_dir :: string
  model_name_or_path :: string
  model_type :: string
  task_names_arg :: string
  task_names :: "string list"
  task_list :: "string list"
  data_dirs :: string
  data_dir_list :: "string list"
  num_label_list :: "nat list"
  max_seq_length :: int
  do_train :: bool
  do_eval :: bool
  overwrite_output_dir :: bool
  overwrite_cache :: bool
  gradient_accumulation_steps :: int
  num_train_epochs :: real
  max_steps :: int
  n_gpu :: int
  fp16 :: bool
  local_rank :: int
  sampling_type :: string
  batch_type :: string
  short :: bool
  start_again :: bool

text \<open>The file system as the three queries the source makes.\<close>

record filesystem =
  path_exists :: "string \<Rightarrow> bool"
  path_isfile :: "string \<Rightarrow> bool"
  listdir :: "string \<Rightarrow> string list"

section \<open>save\_model and resume (lines 149-152, 344-366)\<close>

text \<open>The directory save\_model writes to.\<close>

definition save_model_dir :: "args \<Rightarrow> int \<Rightarrow> string" where
  "save_model_dir a global_step =
     path_join (output_dir a) (''checkpoint-'' @ str_int global_step)"

text \<open>\<open>int(args.model_name_or_path.split("-")[-1].split("/")[0])\<close>.\<close>

definition parse_global_step :: "string \<Rightarrow> error + int" where
  "parse_global_step path = py_int (hd (py_split CHR ''/'' (last (py_split CHR ''-'' path))))"

text \<open>
  Lines 344-356: the triple (global\_step, epochs\_trained, steps\_trained\_in\_current\_epoch)
  the loop starts from; \<open>len_dl\<close> is \<open>len(train_dataloader)\<close>.
\<close>

definition resume_state :: "args \<Rightarrow> filesystem \<Rightarrow> nat \<Rightarrow> error + (int \<times> int \<times> int)" where
  "resume_state a fs len_dl =
     (if path_exists fs (model_name_or_path a) \<and> \<not> start_again a then
        (case parse_global_step (model_name_or_path a) of
           Inl e \<Rightarrow> Inl e
         | Inr global_step \<Rightarrow>
             (case py_floordiv (int len_dl) (gradient_accumulation_steps a) of
                Inl e \<Rightarrow> Inl e
              | Inr steps_per_epoch \<Rightarrow>
                  (case py_floordiv global_step steps_per_epoch of
                     Inl e \<Rightarrow> Inl e
                   | Inr epochs_trained \<Rightarrow>
                       (case py_mod global_step steps_per_epoch of
                          Inl e \<Rightarrow> Inl e
                        | Inr steps_trained_in_current_epoch \<Rightarrow>
                            Inr (global_step, epochs_trained,
                                 steps_trained_in_current_epoch)))))
      else Inr (0, 0, 0))"


section \<open>The training loop (train, lines 218-506)\<close>

text \<open>
  What the loop does to the model, the optimizer, the scheduler and the disk is recorded as
  a trace of events, in the order of the calls in the source.
\<close>

datatype event =
    EvaluateForSampling
  | SaveModel string
  | Backward real
  | ClipGradNorm
  | OptimizerStep
  | SchedulerStep
  | ZeroGrad
  | WriteLossValues int "real option"
  | CloseInEpochIterator
  | CloseTrainIterator

record train_state =
  global_step :: int
  steps_trained_in_current_epoch :: int
  tr_loss :: real
  all_losses :: "real list"
  trace :: "event list"

definition emit :: "event list \<Rightarrow> train_state \<Rightarrow> train_state" where
  "emit es st = st\<lparr>trace := trace st @ es\<rparr>"

text \<open>
  The train dataloader: \<open>dl_len\<close> is \<open>len(train_dataloader)\<close>, \<open>dl_iter epoch\<close> what
  iterating over it yields during that epoch, each element the result of the loader's
  \<open>collate_fn\<close> on a raw batch (a list of sub-batches, or the exception it raised).
\<close>

record 'sub dataloader =
  dl_len :: nat
  dl_iter :: "int \<Rightarrow> (error + 'sub list) list"

text \<open>Lines 218-237: which \<open>collate_fn\<close> the loader gets.\<close>

definition dense_dataloader :: "args \<Rightarrow> bool" where
  "dense_dataloader a =
     (py_in ''dnc'' (output_dir a) \<or> py_in ''size_experiment'' (output_dir a))"

definition train_collate_fn ::
  "args \<Rightarrow> ('a mtl_instance list \<Rightarrow> 'b) \<Rightarrow> 'a mtl_instance list \<Rightarrow> error + 'b list" where
  "train_collate_fn a default_collate =
     (if dense_dataloader a then dense_collate default_collate
      else collate_func default_collate (length (data_dir_list a)))"

text \<open>
  Lines 239-251: with a positive \<open>max_steps\<close> the number of epochs is recomputed; the
  other branch computes \<open>t_total\<close>, which only the scheduler reads, but its division can
  raise.
\<close>

definition plan_epochs :: "args \<Rightarrow> nat \<Rightarrow> error + args" where
  "plan_epochs a len_dl =
     (case py_floordiv (int len_dl) (gradient_accumulation_steps a) of
        Inl e \<Rightarrow> Inl e
      | Inr steps_per_epoch \<Rightarrow>
          if max_steps a > 0 then
            (case py_floordiv (max_steps a) steps_per_epoch of
               Inl e \<Rightarrow> Inl e
             | Inr q \<Rightarrow> Inr (a\<lparr>num_train_epochs := real_of_int (q + 1)\<rparr>))
          else Inr a)"

text \<open>
  Lines 407-452: the loss of one step, summed over the sub-batches. \<open>model\<close> is the
  forward pass of the backend, giving the loss of a sub-batch. With more than one GPU the
  source calls \<open>loss.mean()\<close> before \<open>loss\<close> is first assigned.
\<close>

fun sum_sub_losses :: "args \<Rightarrow> ('sub \<Rightarrow> real) \<Rightarrow> real option \<Rightarrow> 'sub list \<Rightarrow> error + real option" where
  "sum_sub_losses a model loss [] = Inr loss"
| "sum_sub_losses a model loss (batch_with_task # rest) =
     (let sub_loss = model batch_with_task in
      if n_gpu a > 1 then
        (case loss of
           None \<Rightarrow> Inl AttributeError
         | Some l \<Rightarrow> sum_sub_losses a model (Some (l + sub_loss)) rest)
      else
        sum_sub_losses a model
          (Some (case loss of None \<Rightarrow> sub_loss | Some l \<Rightarrow> l + sub_loss)) rest)"

text \<open>Lines 455-462: scaling by the accumulation window, and the backward pass
  (\<open>amp\<close> is never imported, so the fp16 branch raises NameError).\<close>

definition scale_and_backward :: "args \<Rightarrow> real option \<Rightarrow> error + real" where
  "scale_and_backward a loss =
     (case (if gradient_accumulation_steps a > 1
            then (case loss of
                    None \<Rightarrow> Inl TypeError
                  | Some l \<Rightarrow> Inr (Some (l / real_of_int (gradient_accumulation_steps a))))
            else Inr loss) of
        Inl e \<Rightarrow> Inl e
      | Inr loss' \<Rightarrow>
          if fp16 a then Inl NameError
          else (case loss' of None \<Rightarrow> Inl AttributeError | Some l \<Rightarrow> Inr l))"

text \<open>
  Lines 396-482: the body of the inner loop for raw step \<open>step\<close> and its collated batch.
  The result carries the flag of the \<open>break\<close> at line 482.
\<close>

definition train_step ::
  "args \<Rightarrow> ('sub \<Rightarrow> real) \<Rightarrow> int \<Rightarrow> train_state \<Rightarrow> int \<Rightarrow> 'sub list
     \<Rightarrow> error + (train_state \<times> bool)" where
  "train_step a model half_of_batch st step batch_all =
     (if steps_trained_in_current_epoch st > 0 then
        Inr (st\<lparr>steps_trained_in_current_epoch := steps_trained_in_current_epoch st - 1\<rparr>,
             False)
      else
        (let st1 = (if step = half_of_batch
                    then emit [SaveModel (save_model_dir a (global_step st))] st else st) in
         case sum_sub_losses a model None batch_all of
           Inl e \<Rightarrow> Inl e
         | Inr loss0 \<Rightarrow>
         (case scale_and_backward a loss0 of
           Inl e \<Rightarrow> Inl e
         | Inr loss \<Rightarrow>
         (let st2 = (emit [Backward loss] st1)\<lparr>tr_loss := tr_loss st1 + loss\<rparr> in
          case py_mod (step + 1) (gradient_accumulation_steps a) of
            Inl e \<Rightarrow> Inl e
          | Inr r \<Rightarrow>
          (let st3 = (if r = 0
                      then (emit [ClipGradNorm, OptimizerStep, SchedulerStep, ZeroGrad] st2)
                             \<lparr>all_losses := all_losses st2 @ [loss],
                              global_step := global_step st2 + 1\<rparr>
                      else st2) in
           if max_steps a > 0 \<and> global_step st3 > max_steps a
           then Inr (emit [CloseInEpochIterator] st3, True)
           else Inr (st3, False))))))"

text \<open>Lines 395-482: the inner loop over \<open>enumerate(in_epoch_iterator)\<close>. An exception of
  the loader's \<open>collate_fn\<close> surfaces when the batch is fetched, before the skip test.\<close>

fun in_epoch_loop ::
  "args \<Rightarrow> ('sub \<Rightarrow> real) \<Rightarrow> int \<Rightarrow> train_state \<Rightarrow> (nat \<times> (error + 'sub list)) list
     \<Rightarrow> error + train_state" where
  "in_epoch_loop a model half_of_batch st [] = Inr st"
| "in_epoch_loop a model half_of_batch st ((step, fetched) # rest) =
     (case fetched of
        Inl e \<Rightarrow> Inl e
      | Inr batch_all \<Rightarrow>
          (case train_step a model half_of_batch st (int step) batch_all of
             Inl e \<Rightarrow> Inl e
           | Inr (st', stop) \<Rightarrow>
               if stop then Inr st' else in_epoch_loop a model half_of_batch st' rest))"

text \<open>\<open>np.array(all_losses[-10:]).mean()\<close>: nan (here \<open>None\<close>) on an empty list.\<close>

definition mean_last10 :: "real list \<Rightarrow> real option" where
  "mean_last10 xs =
     (let ys = drop (length xs - 10) xs in
      if ys = [] then None else Some (sum_list ys / real (length ys)))"

text \<open>Lines 379-501: the loop over the epochs of \<open>trange(epochs_trained, int(num_train_epochs))\<close>.\<close>

fun epoch_loop ::
  "args \<Rightarrow> 'sub dataloader \<Rightarrow> ('sub \<Rightarrow> real) \<Rightarrow> train_state \<Rightarrow> int list \<Rightarrow> error + train_state" where
  "epoch_loop a dl model st [] = Inr st"
| "epoch_loop a dl model st (epoch # rest) =
     (let st1 = (if sampling_type a = ''dynamic'' then emit [EvaluateForSampling] st else st);
          st2 = (emit [ZeroGrad] st1)\<lparr>all_losses := []\<rparr>;
          half_of_batch = int (dl_len dl) div 2
      in case in_epoch_loop a model half_of_batch st2 (enumerate 0 (dl_iter dl epoch)) of
           Inl e \<Rightarrow> Inl e
         | Inr st3 \<Rightarrow>
             (let st4 = (if local_rank a = -1 \<or> local_rank a = 0
                         then (emit [WriteLossValues epoch (mean_last10 (all_losses st3)),
                                     SaveModel (save_model_dir a (global_step st3))] st3)
                                \<lparr>all_losses := []\<rparr>
                         else st3)
              in if max_steps a > 0 \<and> global_step st4 > max_steps a
                 then Inr (emit [CloseTrainIterator] st4)
                 else epoch_loop a dl model st4 rest))"

text \<open>
  train up to its return statement: the state the loops end in. \<open>os.path.exists\<close> of the
  model path decides whether the run resumes.
\<close>

definition train_loop ::
  "args \<Rightarrow> filesystem \<Rightarrow> 'sub dataloader \<Rightarrow> ('sub \<Rightarrow> real) \<Rightarrow> error + train_state" where
  "train_loop a0 fs dl model =
     (case plan_epochs a0 (dl_len dl) of
        Inl e \<Rightarrow> Inl e
      | Inr a \<Rightarrow>
          (case resume_state a fs (dl_len dl) of
             Inl e \<Rightarrow> Inl e
           | Inr (gs, epochs_trained, skip) \<Rightarrow>
               epoch_loop a dl model
                 \<lparr>global_step = gs, steps_trained_in_current_epoch = skip,
                  tr_loss = 0, all_losses = [], trace = [ZeroGrad]\<rparr>
                 [epochs_trained .. int_of_float (num_train_epochs a) - 1]))"

text \<open>
  train as a whole (line 506): the returned pair \<open>(global_step, tr_loss / global_step)\<close>,
  together with the trace of the run.
\<close>

definition train ::
  "args \<Rightarrow> filesystem \<Rightarrow> 'sub dataloader \<Rightarrow> ('sub \<Rightarrow> real)
     \<Rightarrow> error + (int \<times> real \<times> event list)" where
  "train a fs dl model =
     (case train_loop a fs dl model of
        Inl e \<Rightarrow> Inl e
      | Inr st \<Rightarrow>
          if global_step st = 0 then Inl ZeroDivisionError
          else Inr (global_step st, tr_loss st / real_of_int (global_step st), trace st))"

text \<open>Observations on traces: the events of one stretch of the run, and the events of an
  optimizer update among them.\<close>

definition events_since :: "train_state \<Rightarrow> train_state \<Rightarrow> event list" where
  "events_since st st' = drop (length (trace st)) (trace st')"

definition update_events :: "event list \<Rightarrow> event list" where
  "update_events es =
     filter (\<lambda>e. e = ClipGradNorm \<or> e = OptimizerStep \<or> e = SchedulerStep \<or> e = ZeroGrad) es"

section \<open>evaluate (lines 519-639)\<close>

text \<open>A Python dict with string keys, in insertion order.\<close>

type_synonym 'v dict = "(string \<times> 'v) list"

fun dict_set :: "string \<Rightarrow> 'v \<Rightarrow> 'v dict \<Rightarrow> 'v dict" where
  "dict_set k v [] = [(k, v)]"
| "dict_set k v (p # ps) = (if fst p = k then (k, v) # ps else p # dict_set k v ps)"

definition dict_update :: "'v dict \<Rightarrow> 'v dict \<Rightarrow> 'v dict" where
  "dict_update d new = foldl (\<lambda>acc (k, v). dict_set k v acc) d new"

text \<open>\<open>xs.index(x)\<close> and \<open>xs[i]\<close> for an index that is never negative.\<close>

fun list_index :: "'a list \<Rightarrow> 'a \<Rightarrow> error + nat" where
  "list_index [] x = Inl (ValueError ''is not in list'')"
| "list_index (y # ys) x =
     (if y = x then Inr 0
      else (case list_index ys x of Inl e \<Rightarrow> Inl e | Inr i \<Rightarrow> Inr (Suc i)))"

definition list_get :: "'a list \<Rightarrow> nat \<Rightarrow> error + 'a" where
  "list_get xs i = (if i < length xs then Inr (xs ! i) else Inl IndexError)"

text \<open>\<open>eval_task.replace("-mm", "")\<close>.\<close>

fun replace_mm :: "string \<Rightarrow> string" where
  "replace_mm (a # b # c # rest) =
     (if [a, b, c] = ''-mm'' then replace_mm rest else a # replace_mm (b # c # rest))"
| "replace_mm s = s"

text \<open>Lines 521-531: the evaluation names and output directories of one task.\<close>

definition eval_task_names :: "string \<Rightarrow> string list" where
  "eval_task_names task_name = (if task_name = ''mnli'' then [''mnli''] else [task_name])"

definition eval_outputs_dirs :: "args \<Rightarrow> string \<Rightarrow> string list" where
  "eval_outputs_dirs a task_name =
     (if task_name = ''mnli'' then [output_dir a, output_dir a @ ''-MM''] else [output_dir a])"

text \<open>
  Everything between loading the held-out set and \<open>compute_metrics\<close> (lines 541-623) is
  the backend: \<open>run_eval eval_task task data_dir num_labels\<close> gives the metrics of one
  evaluation, or the exception it raised. The record of an evaluation is the metrics
  mapping and the report file written (lines 626-636).
\<close>

type_synonym metrics = "real dict"

record eval_state =
  results :: metrics
  eval_task :: "string option"
  written :: "string list"

fun eval_variants ::
  "args \<Rightarrow> (string \<Rightarrow> string \<Rightarrow> string \<Rightarrow> nat \<Rightarrow> error + metrics) \<Rightarrow> string \<Rightarrow> nat
     \<Rightarrow> eval_state \<Rightarrow> (string \<times> string) list \<Rightarrow> error + eval_state" where
  "eval_variants a run_eval prefix eval_task_index es [] = Inr es"
| "eval_variants a run_eval prefix eval_task_index es ((task, eval_output_dir) # rest) =
     (case list_get (task_list a) eval_task_index of Inl e \<Rightarrow> Inl e | Inr t \<Rightarrow>
     (case list_get (data_dir_list a) eval_task_index of Inl e \<Rightarrow> Inl e | Inr d \<Rightarrow>
     (case list_index (task_names a) (replace_mm task) of Inl e \<Rightarrow> Inl e | Inr i \<Rightarrow>
     (case list_get (num_label_list a) i of Inl e \<Rightarrow> Inl e | Inr num_labels \<Rightarrow>
     (case run_eval task t d num_labels of Inl e \<Rightarrow> Inl e | Inr result \<Rightarrow>
        eval_variants a run_eval prefix eval_task_index
          \<lparr>results = dict_update (results es) result,
           eval_task = Some task,
           written = written es
             @ [path_join (path_join eval_output_dir prefix) ''eval_results.txt'']\<rparr>
          rest)))))"

fun eval_tasks ::
  "args \<Rightarrow> (string \<Rightarrow> string \<Rightarrow> string \<Rightarrow> nat \<Rightarrow> error + metrics) \<Rightarrow> string
     \<Rightarrow> string option \<Rightarrow> metrics dict \<times> string list
     \<Rightarrow> (nat \<times> string list \<times> string list) list \<Rightarrow> error + (metrics dict \<times> string list)" where
  "eval_tasks a run_eval prefix last_task acc [] = Inr acc"
| "eval_tasks a run_eval prefix last_task (full_results, files)
       ((eval_task_index, names, dirs) # rest) =
     (case eval_variants a run_eval prefix eval_task_index
             \<lparr>results = [], eval_task = last_task, written = files\<rparr> (zip names dirs) of
        Inl e \<Rightarrow> Inl e
      | Inr es \<Rightarrow>
          (case eval_task es of
             None \<Rightarrow> Inl NameError
           | Some task \<Rightarrow>
               eval_tasks a run_eval prefix (Some task)
                 (dict_set task (results es) full_results, written es) rest))"

text \<open>evaluate: the mapping \<open>full_results\<close> it returns and the report files it wrote.\<close>

definition evaluate ::
  "args \<Rightarrow> (string \<Rightarrow> string \<Rightarrow> string \<Rightarrow> nat \<Rightarrow> error + metrics) \<Rightarrow> string
     \<Rightarrow> error + (metrics dict \<times> string list)" where
  "evaluate a run_eval prefix =
     eval_tasks a run_eval prefix None ([], [])
       (enumerate 0 (zip (map eval_task_names (task_names a))
                         (map (eval_outputs_dirs a) (task_names a))))"

section \<open>load\_and\_cache\_examples (lines 642-740)\<close>

text \<open>
  The task processors and \<open>output_modes\<close> come from a module outside this file; they are
  parameters. A processor gives its labels and its examples; \<open>convert\<close> is the tokenizer
  backend \<open>convert_examples_to_features\<close>. The feature cache is the part of the disk the
  function reads and writes: a map from file names to the stored features.
\<close>

record 'ex processor =
  get_labels :: "string list"
  get_train_examples :: "string \<Rightarrow> error + 'ex list"
  get_dev_examples :: "string \<Rightarrow> error + 'ex list"

text \<open>Lines 650-656: the lookup by task name, then by the name without its last character.\<close>

definition lookup_task ::
  "(string \<Rightarrow> 'ex processor option) \<Rightarrow> (string \<Rightarrow> string option) \<Rightarrow> string
     \<Rightarrow> error + ('ex processor \<times> string)" where
  "lookup_task processors output_modes task =
     (case (processors task, output_modes task) of
        (Some p, Some m) \<Rightarrow> Inr (p, m)
      | _ \<Rightarrow> (case (processors (butlast task), output_modes (butlast task)) of
                (Some p, Some m) \<Rightarrow> Inr (p, m)
              | _ \<Rightarrow> Inl KeyError))"

text \<open>Lines 663-671: the name of the cache file.\<close>

definition cached_features_file :: "args \<Rightarrow> string \<Rightarrow> string \<Rightarrow> bool \<Rightarrow> error + string" where
  "cached_features_file a task data_dir evaluate_flag =
     (case filter (\<lambda>part. part \<noteq> []) (py_split CHR ''/'' (model_name_or_path a)) of
        [] \<Rightarrow> Inl IndexError
      | parts \<Rightarrow>
          Inr (path_join data_dir
                 (''cached_'' @ (if evaluate_flag then ''dev'' else ''train'') @ ''_''
                    @ last parts @ ''_'' @ str_int (max_seq_length a) @ ''_'' @ task)))"

text \<open>Lines 679-686: the label list, with the RoBERTa swap for MNLI.\<close>

definition label_list_for :: "args \<Rightarrow> string \<Rightarrow> string list \<Rightarrow> error + string list" where
  "label_list_for a task labels =
     (if (task = ''mnli'' \<or> task = ''mnli-mm'')
           \<and> (model_type a = ''roberta'' \<or> model_type a = ''xlmroberta'')
      then (if length labels < 3 then Inl IndexError
            else Inr (labels[1 := labels ! 2, 2 := labels ! 1]))
      else Inr labels)"

text \<open>Lines 678-709: the features made anew from the source examples; an exception of
  the conversion is raised again.\<close>

definition regenerate_features ::
  "args \<Rightarrow> 'ex processor \<Rightarrow> string
     \<Rightarrow> (string list \<Rightarrow> string \<Rightarrow> 'ex list \<Rightarrow> error + 'f list)
     \<Rightarrow> string \<Rightarrow> string \<Rightarrow> bool \<Rightarrow> bool \<Rightarrow> error + 'f list" where
  "regenerate_features a processor output_mode convert task data_dir evaluate_flag shorten =
     (case label_list_for a task (get_labels processor) of
        Inl e \<Rightarrow> Inl e
      | Inr label_list \<Rightarrow>
          (case (if evaluate_flag then get_dev_examples processor data_dir
                 else get_train_examples processor data_dir) of
             Inl e \<Rightarrow> Inl e
           | Inr examples \<Rightarrow>
               convert label_list output_mode (if shorten then take 2 examples else examples)))"

text \<open>
  \<open>torch.distributed.barrier()\<close> is a parameter: the process waits for the other
  processes, and \<open>barrier cache\<close> is the cache as they have left it when the wait ends,
  or the exception of the call (there is no process group).
\<close>

text \<open>Lines 646-647: every process but the first waits before it looks at the cache of the
  training split.\<close>

definition wait_for_first_process ::
  "args \<Rightarrow> bool \<Rightarrow> ((string \<Rightarrow> 'f list option) \<Rightarrow> error + (string \<Rightarrow> 'f list option))
     \<Rightarrow> (string \<Rightarrow> 'f list option) \<Rightarrow> error + (string \<Rightarrow> 'f list option)" where
  "wait_for_first_process a evaluate_flag barrier cache =
     (if \<not> (local_rank a = -1 \<or> local_rank a = 0) \<and> \<not> evaluate_flag
      then barrier cache else Inr cache)"

text \<open>
  Lines 672-715: the features, from the cache file or made anew, with the cache afterwards
  and the files this call has written with \<open>torch.save\<close>.
\<close>

definition load_or_create_features ::
  "args \<Rightarrow> 'ex processor \<Rightarrow> string
     \<Rightarrow> (string list \<Rightarrow> string \<Rightarrow> 'ex list \<Rightarrow> error + 'f list)
     \<Rightarrow> (string \<Rightarrow> 'f list option) \<Rightarrow> string \<Rightarrow> string \<Rightarrow> string \<Rightarrow> bool \<Rightarrow> bool
     \<Rightarrow> error + ('f list \<times> (string \<Rightarrow> 'f list option) \<times> string list)" where
  "load_or_create_features a processor output_mode convert cache file task data_dir
       evaluate_flag shorten =
     (if cache file \<noteq> None \<and> \<not> overwrite_cache a
      then Inr (the (cache file), cache, [])
      else
        (case regenerate_features a processor output_mode convert task data_dir
                evaluate_flag shorten of
           Inl e \<Rightarrow> Inl e
         | Inr features \<Rightarrow>
             if local_rank a = -1 \<or> local_rank a = 0
             then Inr (features, cache(file := Some features), [file])
             else Inr (features, cache, [])))"

text \<open>Lines 717-718: the first process of a distributed run meets the others at the
  barrier once the training features are there.\<close>

definition release_other_processes ::
  "args \<Rightarrow> bool \<Rightarrow> ((string \<Rightarrow> 'f list option) \<Rightarrow> error + (string \<Rightarrow> 'f list option))
     \<Rightarrow> 'f list \<times> (string \<Rightarrow> 'f list option) \<times> string list
     \<Rightarrow> error + ('f list \<times> (string \<Rightarrow> 'f list option) \<times> string list)" where
  "release_other_processes a evaluate_flag barrier r =
     (case r of (features, cache, saved) \<Rightarrow>
        if local_rank a = 0 \<and> \<not> evaluate_flag
        then (case barrier cache of
                Inl e \<Rightarrow> Inl e
              | Inr cache' \<Rightarrow> Inr (features, cache', saved))
        else Inr (features, cache, saved))"

text \<open>
  Lines 642-718: the features, the cache afterwards and the files written. (The
  conversion of the features to tensors that follows, lines 720-740, is not modelled.)
\<close>

definition load_and_cache_examples ::
  "args \<Rightarrow> (string \<Rightarrow> 'ex processor option) \<Rightarrow> (string \<Rightarrow> string option)
     \<Rightarrow> (string list \<Rightarrow> string \<Rightarrow> 'ex list \<Rightarrow> error + 'f list)
     \<Rightarrow> ((string \<Rightarrow> 'f list option) \<Rightarrow> error + (string \<Rightarrow> 'f list option))
     \<Rightarrow> (string \<Rightarrow> 'f list option) \<Rightarrow> string \<Rightarrow> string \<Rightarrow> bool \<Rightarrow> bool
     \<Rightarrow> error + ('f list \<times> (string \<Rightarrow> 'f list option) \<times> string list)" where
  "load_and_cache_examples a processors output_modes convert barrier cache task data_dir
       evaluate_flag shorten =
     (case wait_for_first_process a evaluate_flag barrier cache of
        Inl e \<Rightarrow> Inl e
      | Inr cache1 \<Rightarrow>
          (case lookup_task processors output_modes task of
             Inl e \<Rightarrow> Inl e
           | Inr (processor, output_mode) \<Rightarrow>
               (case cached_features_file a task data_dir evaluate_flag of
                  Inl e \<Rightarrow> Inl e
                | Inr file \<Rightarrow>
                    (case load_or_create_features a processor output_mode convert cache1 file
                            task data_dir evaluate_flag shorten of
                       Inl e \<Rightarrow> Inl e
                     | Inr r \<Rightarrow> release_other_processes a evaluate_flag barrier r))))"

text \<open>Observations on a result of load\_and\_cache\_examples: the features returned, what is
  in the cache under a file name, and the files the call has written.\<close>

definition features_of ::
  "error + ('f list \<times> (string \<Rightarrow> 'f list option) \<times> string list) \<Rightarrow> 'f list option" where
  "features_of r = (case r of Inl e \<Rightarrow> None | Inr (features, cache, saved) \<Rightarrow> Some features)"

definition cache_after ::
  "error + ('f list \<times> (string \<Rightarrow> 'f list option) \<times> string list) \<Rightarrow> string \<Rightarrow> 'f list option" where
  "cache_after r file = (case r of Inl e \<Rightarrow> None | Inr (features, cache, saved) \<Rightarrow> cache file)"

definition files_saved ::
  "error + ('f list \<times> (string \<Rightarrow> 'f list option) \<times> string list) \<Rightarrow> string list option" where
  "files_saved r = (case r of Inl e \<Rightarrow> None | Inr (features, cache, saved) \<Rightarrow> Some saved)"

section \<open>Start of main (lines 982-1102)\<close>

text \<open>\<open>s.lower()\<close> on ASCII.\<close>

definition lower_char :: "char \<Rightarrow> char" where
  "lower_char c =
     (if 65 \<le> (of_char c :: nat) \<and> (of_char c :: nat) \<le> 90 then char_of (of_char c + 32 :: nat)
      else c)"

definition py_lower :: "string \<Rightarrow> string" where
  "py_lower s = map lower_char s"

text \<open>The keys of \<open>MODEL_CLASSES\<close> (lines 111-136).\<close>

definition MODEL_CLASSES :: "string list" where
  "MODEL_CLASSES = [''bert'', ''xlnet'', ''xlm'', ''roberta'', ''distilbert'', ''albert'',
                    ''xlmroberta'', ''flaubert'']"

text \<open>Lines 1051-1059: every task name must be a key of \<open>processors\<close>; the number of labels
  of each task is collected.\<close>

fun check_tasks :: "(string \<Rightarrow> 'ex processor option) \<Rightarrow> string list \<Rightarrow> error + nat list" where
  "check_tasks processors [] = Inr []"
| "check_tasks processors (task_name # rest) =
     (case processors task_name of
        None \<Rightarrow> Inl (ValueError (''Task not found: '' @ task_name))
      | Some p \<Rightarrow>
          (case check_tasks processors rest of
             Inl e \<Rightarrow> Inl e
           | Inr ns \<Rightarrow> Inr (length (get_labels p) # ns)))"

text \<open>
  main from the parsed arguments up to the point where the pretrained configuration,
  tokenizer and model are loaded (line 1086). \<open>exit(0)\<close> raises \<open>SystemExit 0\<close>. The
  result is the namespace the rest of the run works with. Device selection, logging and
  the reading of the single-task scores lie between these lines and do not read the
  fields tested here.
\<close>

definition main_startup ::
  "filesystem \<Rightarrow> (string \<Rightarrow> 'ex processor option) \<Rightarrow> args \<Rightarrow> error + args" where
  "main_startup fs processors a =
     (if path_exists fs (output_dir a) \<and> listdir fs (output_dir a) \<noteq> []
           \<and> do_train a \<and> \<not> overwrite_output_dir a
      then Inl (ValueError (''Output directory ('' @ output_dir a
                  @ '') already exists and is not empty. Use --overwrite_output_dir to overcome.''))
      else if path_isfile fs (path_join (output_dir a) ''results.csv'')
      then Inl (SystemExit 0)
      else
        (let names = py_split CHR '' '' (py_lower (task_names_arg a)) in
         case check_tasks processors names of
           Inl e \<Rightarrow> Inl e
         | Inr nums \<Rightarrow>
             if py_lower (model_type a) \<in> set MODEL_CLASSES
             then Inr (a\<lparr>task_names := names,
                         num_label_list := nums,
                         data_dir_list := py_split CHR '' '' (data_dirs a),
                         task_list := map py_lower names,
                         model_type := py_lower (model_type a)\<rparr>)
             else Inl KeyError))"

text \<open>The file main writes at the end of a run (line 1203).\<close>

definition results_file :: "args \<Rightarrow> string" where
  "results_file a = path_join (output_dir a) ''results.json''"


section \<open>The argument parser's defaults (lines 744-982)\<close>

text \<open>The namespace \<open>parse_args\<close> gives when only the required options are passed;
  \<open>n_gpu\<close> is what main sets on a machine without a GPU.\<close>

definition default_args :: "string \<Rightarrow> string \<Rightarrow> string \<Rightarrow> string \<Rightarrow> string \<Rightarrow> args" where
  "default_args data_dirs_v model_type_v model_name_or_path_v task_names_v output_dir_v =
     \<lparr>output_dir = output_dir_v, model_name_or_path = model_name_or_path_v,
      model_type = model_type_v, task_names_arg = task_names_v, task_names = [],
      task_list = [], data_dirs = data_dirs_v, data_dir_list = [], num_label_list = [],
      max_seq_length = 128, do_train = False, do_eval = False,
      overwrite_output_dir = False, overwrite_cache = False,
      gradient_accumulation_steps = 1, num_train_epochs = 3, max_steps = - 1,
      n_gpu = 0, fp16 = False, local_rank = - 1, sampling_type = ''uniform'',
      batch_type = ''heterogeneous'', short = False, start_again = False\<rparr>"

section \<open>The order of sub-batches the specification states\<close>

text \<open>
  The specification asks for the sub-batches "in the order tasks appear in the raw batch":
  the task indices in the order of their first occurrence.
\<close>

fun order_of_appearance :: "int list \<Rightarrow> int list" where
  "order_of_appearance [] = []"
| "order_of_appearance (t # ts) = t # filter (\<lambda>u. u \<noteq> t) (order_of_appearance ts)"

definition sub_batch_task :: "'a mtl_instance list \<Rightarrow> int" where
  "sub_batch_task g = task_index (hd g)"


section \<open>Properties of collate\_func\<close>

lemma py_index_in_range: "0 \<le> i \<Longrightarrow> i < int n \<Longrightarrow> py_index n i = Some (nat i)"
  by (simp add: py_index_def)

lemma append_by_task_valid:
  "\<forall>i\<in>set batch. 0 \<le> task_index i \<and> task_index i < int (length bbt) \<Longrightarrow>
   append_by_task bbt batch =
     Inr (map (\<lambda>t. bbt ! t @ filter (\<lambda>i. task_index i = int t) batch) [0..<length bbt])"
proof (induction batch arbitrary: bbt)
  case Nil
  then show ?case by (simp add: map_nth)
next
  case (Cons inst rest)
  let ?j = "nat (task_index inst)"
  let ?bbt = "bbt[?j := bbt ! ?j @ [inst]]"
  from Cons.prems have r: "0 \<le> task_index inst" "task_index inst < int (length bbt)"
    by auto
  then have j: "?j < length bbt" by linarith
  have idx: "py_index (length bbt) (task_index inst) = Some ?j"
    using r by (rule py_index_in_range)
  have "\<forall>i\<in>set rest. 0 \<le> task_index i \<and> task_index i < int (length ?bbt)"
    using Cons.prems by simp
  from Cons.IH [OF this]
  have ih: "append_by_task ?bbt rest =
     Inr (map (\<lambda>t. ?bbt ! t @ filter (\<lambda>i. task_index i = int t) rest) [0..<length bbt])"
    by simp
  have "map (\<lambda>t. ?bbt ! t @ filter (\<lambda>i. task_index i = int t) rest) [0..<length bbt]
      = map (\<lambda>t. bbt ! t @ filter (\<lambda>i. task_index i = int t) (inst # rest)) [0..<length bbt]"
  proof (rule map_cong [OF refl])
    fix t assume "t \<in> set [0..<length bbt]"
    then have t: "t < length bbt" by simp
    show "?bbt ! t @ filter (\<lambda>i. task_index i = int t) rest
        = bbt ! t @ filter (\<lambda>i. task_index i = int t) (inst # rest)"
    proof (cases "t = ?j")
      case True
      then have "task_index inst = int t" using r by simp
      then show ?thesis using True j by simp
    next
      case False
      then have "task_index inst \<noteq> int t" using r by auto
      then show ?thesis using False by simp
    qed
  qed
  with ih idx show ?case by simp
qed

lemma append_by_task_length:
  "append_by_task bbt batch = Inr g \<Longrightarrow>
   sum_list (map length g) = sum_list (map length bbt) + length batch"
proof (induction batch arbitrary: bbt g)
  case Nil
  then show ?case by simp
next
  case (Cons inst rest)
  from Cons.prems obtain j where j: "py_index (length bbt) (task_index inst) = Some j"
    and rec: "append_by_task (bbt[j := bbt ! j @ [inst]]) rest = Inr g"
    by (auto split: option.splits)
  from j have jl: "j < length bbt"
    by (auto simp: py_index_def split: if_splits)
  have "sum_list (map length (bbt[j := bbt ! j @ [inst]])) = sum_list (map length bbt) + 1"
    using jl by (simp add: map_update sum_list_update)
  with Cons.IH [OF rec] show ?case by simp
qed


lemma group_by_task_valid:
  assumes "batch \<noteq> []"
      and "\<forall>i\<in>set batch. 0 \<le> task_index i \<and> task_index i < int n"
  shows "group_by_task n batch =
     Inr (filter (\<lambda>g. g \<noteq> []) (map (\<lambda>t. filter (\<lambda>i. task_index i = int t) batch) [0..<n]))"
proof -
  let ?bbt = "map (\<lambda>t. filter (\<lambda>i. task_index i = int t) batch) [0..<n]"
  have "append_by_task (replicate n []) batch
      = Inr (map (\<lambda>t. replicate n [] ! t @ filter (\<lambda>i. task_index i = int t) batch)
               [0..<length (replicate n ([] :: 'a mtl_instance list))])"
    by (rule append_by_task_valid) (use assms(2) in simp)
  also have "map (\<lambda>t. replicate n [] ! t @ filter (\<lambda>i. task_index i = int t) batch)
               [0..<length (replicate n ([] :: 'a mtl_instance list))] = ?bbt"
    by (rule map_cong) simp_all
  finally have app: "append_by_task (replicate n []) batch = Inr ?bbt" .
  from append_by_task_length [OF app]
  have "sum_list (map length ?bbt) = length batch" by simp
  with assms(1) have nz: "sum_list (map length ?bbt) \<noteq> 0" by simp
  have same: "0 \<notin> set (map length ?bbt) \<Longrightarrow> filter (\<lambda>g. g \<noteq> []) ?bbt = ?bbt"
    by (rule filter_True) force
  show ?thesis
    unfolding group_by_task_def app
    using nz same by (simp add: Let_def del: set_map)
qed

lemma groups_sorted:
  "sorted_wrt (<) (map sub_batch_task
      (filter (\<lambda>g. g \<noteq> []) (map (\<lambda>t. filter (\<lambda>i. task_index i = int t) batch) [0..<n])))"
proof -
  let ?f = "\<lambda>t. filter (\<lambda>i. task_index i = int t) batch"
  let ?xs = "filter (\<lambda>t. ?f t \<noteq> []) [0..<n]"
  have hd_task: "task_index (hd (?f t)) = int t" if "?f t \<noteq> []" for t
  proof -
    from that have "hd (?f t) \<in> set (?f t)" by (rule hd_in_set)
    then show ?thesis by simp
  qed
  have "map sub_batch_task (filter (\<lambda>g. g \<noteq> []) (map ?f [0..<n]))
      = map (\<lambda>t. task_index (hd (?f t))) ?xs"
    by (simp add: filter_map comp_def sub_batch_task_def)
  also have "\<dots> = map int ?xs"
    by (rule map_cong [OF refl]) (simp add: hd_task)
  finally have eq: "map sub_batch_task (filter (\<lambda>g. g \<noteq> []) (map ?f [0..<n]))
      = map int ?xs" .
  have "sorted_wrt (<) ?xs"
    by (rule sorted_wrt_filter) (simp add: sorted_wrt_upt)
  then have "sorted_wrt (<) (map int ?xs)"
    by (simp add: sorted_wrt_map)
  with eq show ?thesis by simp
qed

text \<open>
  Claim C4, as the code has it. For every non-empty raw batch whose task indices are
  indices of \<open>args.data_dir_list\<close> (from 0 to n - 1), the split-mode collate function
  returns the sub-batches \<open>groups\<close> (each passed through \<open>default_collate\<close>) such that
  (a) all instances of a sub-batch have the task index of the sub-batch, (b) no sub-batch
  is empty: the empty per-task groups are dropped, and (c) the sub-batches are ordered by
  ascending task index, which is the order of \<open>args.data_dir_list\<close> and not the order in
  which the tasks first appear in the raw batch; each sub-batch holds the instances of its
  task in raw-batch order, and together they hold exactly the instances of the raw batch.
\<close>

theorem collate_func_sub_batches:
  assumes "batch \<noteq> []"
      and "\<forall>i\<in>set batch. 0 \<le> task_index i \<and> task_index i < int n"
  shows "\<exists>groups.
      collate_func default_collate n batch = Inr (map default_collate groups)
    \<and> groups = filter (\<lambda>g. g \<noteq> [])
                 (map (\<lambda>t. filter (\<lambda>i. task_index i = int t) batch) [0..<n])
    \<and> (\<forall>g\<in>set groups. g \<noteq> [] \<and> (\<forall>i\<in>set g. task_index i = sub_batch_task g))
    \<and> sorted_wrt (<) (map sub_batch_task groups)
    \<and> set (concat groups) = set batch"
proof -
  let ?f = "\<lambda>t. filter (\<lambda>i. task_index i = int t) batch"
  let ?groups = "filter (\<lambda>g. g \<noteq> []) (map ?f [0..<n])"
  have c: "collate_func default_collate n batch = Inr (map default_collate ?groups)"
    by (simp add: collate_func_def group_by_task_valid [OF assms])
  have homog: "\<forall>g\<in>set ?groups. g \<noteq> [] \<and> (\<forall>i\<in>set g. task_index i = sub_batch_task g)"
  proof
    fix g assume "g \<in> set ?groups"
    then obtain t where g: "g = ?f t" and ne: "g \<noteq> []" by auto
    from ne have "hd g \<in> set g" by (rule hd_in_set)
    with g have "sub_batch_task g = int t" by (simp add: sub_batch_task_def)
    with g ne show "g \<noteq> [] \<and> (\<forall>i\<in>set g. task_index i = sub_batch_task g)" by simp
  qed
  have cover: "set (concat ?groups) = set batch"
  proof
    show "set (concat ?groups) \<subseteq> set batch" by auto
    show "set batch \<subseteq> set (concat ?groups)"
    proof
      fix i assume i: "i \<in> set batch"
      with assms(2) have r: "0 \<le> task_index i" "task_index i < int n" by auto
      let ?t = "nat (task_index i)"
      have mem: "i \<in> set (?f ?t)" using i r by simp
      then have ne: "?f ?t \<noteq> []" by (metis empty_iff list.set(1))
      have "?t \<in> set [0..<n]" using r by simp
      then have "?f ?t \<in> set (map ?f [0..<n])" by (simp only: set_map) (rule imageI)
      with ne have "?f ?t \<in> set ?groups" by simp
      with mem show "i \<in> set (concat ?groups)" by (simp only: set_concat) blast
    qed
  qed
  from c homog groups_sorted [of batch n] cover show ?thesis by blast
qed

theorem collate_func_sub_batches_witness:
  "\<exists>groups.
      collate_func id 2 [\<lparr>tensors = (), task_index = 1\<rparr>, \<lparr>tensors = (), task_index = 0\<rparr>,
                         \<lparr>tensors = (), task_index = 1\<rparr>] = Inr (map id groups)
    \<and> groups = filter (\<lambda>g. g \<noteq> [])
                 (map (\<lambda>t. filter (\<lambda>i. task_index i = int t)
                    [\<lparr>tensors = (), task_index = 1\<rparr>, \<lparr>tensors = (), task_index = 0\<rparr>,
                     \<lparr>tensors = (), task_index = 1\<rparr>]) [0..<2])
    \<and> (\<forall>g\<in>set groups. g \<noteq> [] \<and> (\<forall>i\<in>set g. task_index i = sub_batch_task g))
    \<and> sorted_wrt (<) (map sub_batch_task groups)
    \<and> set (concat groups) = set [\<lparr>tensors = (), task_index = 1\<rparr>, \<lparr>tensors = (), task_index = 0\<rparr>,
                         \<lparr>tensors = (), task_index = 1\<rparr>]"
  by (rule collate_func_sub_batches) simp_all

text \<open>
  Claim C4 as stated fails in its part (c): on the raw batch with an instance of task 1
  followed by an instance of task 0, the sub-batch of task 0 comes first, while the tasks
  appear in the raw batch in the order 1, 0.
\<close>

theorem collate_func_order_counterexample:
  "collate_func id 2 [\<lparr>tensors = (), task_index = 1\<rparr>, \<lparr>tensors = (), task_index = 0\<rparr>]
     = Inr [[\<lparr>tensors = (), task_index = 0\<rparr>], [\<lparr>tensors = (), task_index = 1\<rparr>]]
   \<and> map sub_batch_task [[\<lparr>tensors = (), task_index = 0\<rparr>], [\<lparr>tensors = (), task_index = 1\<rparr>]]
       \<noteq> order_of_appearance
           (map task_index [\<lparr>tensors = (), task_index = 1\<rparr>, \<lparr>tensors = (), task_index = (0::int)\<rparr>])"
  by (simp add: collate_func_def group_by_task_def py_index_def numeral_2_eq_2
        sub_batch_task_def)

text \<open>
  Claim C3. If every per-task group of a raw batch is empty, which happens exactly for the
  raw batch without instances, the split-mode collate function raises
  \<open>Exception("Empty task lists")\<close> instead of returning a batch; and the training loop,
  which has no handler around the fetch of a batch, ends with that exception at this
  step, whatever the batches after it: the step is neither skipped nor tried again.
\<close>

theorem collate_func_empty_raises:
  assumes "append_by_task (replicate n []) batch = Inr groups"
      and "\<forall>g\<in>set groups. g = []"
  shows "batch = []
    \<and> collate_func default_collate n batch = Inl (Exception ''Empty task lists'')
    \<and> in_epoch_loop a model half_of_batch st
          ((step, collate_func default_collate n batch) # rest)
        = Inl (Exception ''Empty task lists'')"
proof -
  from assms(2) have z: "sum_list (map length groups) = 0" by (induction groups) auto
  with append_by_task_length [OF assms(1)] have "batch = []" by simp
  moreover have c: "collate_func default_collate n batch = Inl (Exception ''Empty task lists'')"
    using assms(1) z by (simp add: collate_func_def group_by_task_def)
  ultimately show ?thesis by simp
qed


theorem collate_func_empty_raises_witness:
  "append_by_task (replicate 2 []) ([] :: unit mtl_instance list) = Inr [[], []]
   \<and> collate_func id 2 ([] :: unit mtl_instance list) = Inl (Exception ''Empty task lists'')
   \<and> in_epoch_loop (default_args ''d0 d1'' ''bert'' ''bert-base-uncased'' ''rte mrpc'' ''out'')
        (\<lambda>b. 1) 1 \<lparr>global_step = 0, steps_trained_in_current_epoch = 0, tr_loss = 0,
                    all_losses = [], trace = [ZeroGrad]\<rparr>
        [(0, collate_func id 2 ([] :: unit mtl_instance list)), (1, Inr [[]])]
       = Inl (Exception ''Empty task lists'')"
proof -
  have g: "append_by_task (replicate 2 []) ([] :: unit mtl_instance list) = Inr [[], []]"
    by (simp add: numeral_2_eq_2)
  have e: "\<forall>g\<in>set [[], [] :: unit mtl_instance list]. g = []"
    by simp
  from collate_func_empty_raises [OF g e] g show ?thesis
    by blast
qed


section \<open>Properties of the training loop\<close>

lemma sum_sub_losses_Some:
  "n_gpu a \<le> 1 \<Longrightarrow>
   sum_sub_losses a model (Some l) bs = Inr (Some (l + sum_list (map model bs)))"
  by (induction bs arbitrary: l) (simp_all add: Let_def add.assoc)

lemma sum_sub_losses_None:
  "n_gpu a \<le> 1 \<Longrightarrow> bs \<noteq> [] \<Longrightarrow>
   sum_sub_losses a model None bs = Inr (Some (sum_list (map model bs)))"
  by (cases bs) (simp_all add: Let_def sum_sub_losses_Some)

lemma sum_sub_losses_many_gpus:
  "n_gpu a > 1 \<Longrightarrow> bs \<noteq> [] \<Longrightarrow> sum_sub_losses a model None bs = Inl AttributeError"
  by (cases bs) (simp_all add: Let_def)

lemma scale_and_backward_fails: "\<exists>e. scale_and_backward a None = Inl e"
  by (simp add: scale_and_backward_def)

lemma scale_and_backward_Some:
  "1 \<le> gradient_accumulation_steps a \<Longrightarrow>
   scale_and_backward a (Some l) =
     (if fp16 a then Inl NameError else Inr (l / real_of_int (gradient_accumulation_steps a)))"
  by (cases "gradient_accumulation_steps a = 1") (simp_all add: scale_and_backward_def)

text \<open>The loss a processed step hands to backward.\<close>

lemma train_step_loss:
  assumes run: "train_step a model half_of_batch st step batch_all = Inr (st', stop)"
      and proc: "steps_trained_in_current_epoch st \<le> 0"
      and N: "1 \<le> gradient_accumulation_steps a"
  shows "sum_sub_losses a model None batch_all = Inr (Some (sum_list (map model batch_all)))
       \<and> scale_and_backward a (Some (sum_list (map model batch_all)))
           = Inr (sum_list (map model batch_all) / real_of_int (gradient_accumulation_steps a))"
proof -
  have ne: "batch_all \<noteq> []"
  proof
    assume "batch_all = []"
    moreover obtain e where "scale_and_backward a None = Inl e"
      using scale_and_backward_fails by blast
    ultimately show False using run proc
      by (simp add: train_step_def Let_def)
  qed
  have gpu: "n_gpu a \<le> 1"
  proof (rule ccontr)
    assume "\<not> n_gpu a \<le> 1"
    then have "sum_sub_losses a model None batch_all = Inl AttributeError"
      using ne by (simp add: sum_sub_losses_many_gpus)
    then show False using run proc
      by (simp add: train_step_def Let_def)
  qed
  have s: "sum_sub_losses a model None batch_all = Inr (Some (sum_list (map model batch_all)))"
    using gpu ne by (rule sum_sub_losses_None)
  have "\<not> fp16 a"
  proof
    assume "fp16 a"
    then have "scale_and_backward a (Some (sum_list (map model batch_all))) = Inl NameError"
      using N by (simp add: scale_and_backward_Some)
    then show False using run proc s
      by (simp add: train_step_def Let_def)
  qed
  with s N show ?thesis by (simp add: scale_and_backward_Some)
qed

lemma train_step_processed:
  assumes run: "train_step a model half_of_batch st step batch_all = Inr (st', stop)"
      and proc: "steps_trained_in_current_epoch st \<le> 0"
      and N: "1 \<le> gradient_accumulation_steps a"
  defines "loss \<equiv> sum_list (map model batch_all) / real_of_int (gradient_accumulation_steps a)"
      and "upd \<equiv> (step + 1) mod gradient_accumulation_steps a = 0"
  shows "trace st' = trace st
           @ (if step = half_of_batch then [SaveModel (save_model_dir a (global_step st))] else [])
           @ [Backward loss]
           @ (if upd then [ClipGradNorm, OptimizerStep, SchedulerStep, ZeroGrad] else [])
           @ (if stop then [CloseInEpochIterator] else [])"
    and "global_step st' = global_step st + (if upd then 1 else 0)"
    and "tr_loss st' = tr_loss st + loss"
    and "steps_trained_in_current_epoch st' = steps_trained_in_current_epoch st"
    and "stop = (max_steps a > 0 \<and> global_step st' > max_steps a)"
proof -
  note l = train_step_loss [OF run proc N]
  have N0: "gradient_accumulation_steps a \<noteq> 0" using N by simp
  have r: "Inr (st', stop) = train_step a model half_of_batch st step batch_all"
    using run by simp
  show "trace st' = trace st
           @ (if step = half_of_batch then [SaveModel (save_model_dir a (global_step st))] else [])
           @ [Backward loss]
           @ (if upd then [ClipGradNorm, OptimizerStep, SchedulerStep, ZeroGrad] else [])
           @ (if stop then [CloseInEpochIterator] else [])"
    using r proc l N0
    by (auto simp: train_step_def Let_def py_mod_def emit_def loss_def upd_def split: if_splits)
  show "global_step st' = global_step st + (if upd then 1 else 0)"
    using r proc l N0
    by (auto simp: train_step_def Let_def py_mod_def emit_def loss_def upd_def split: if_splits)
  show "tr_loss st' = tr_loss st + loss"
    using r proc l N0
    by (auto simp: train_step_def Let_def py_mod_def emit_def loss_def upd_def split: if_splits)
  show "steps_trained_in_current_epoch st' = steps_trained_in_current_epoch st"
    using r proc l N0
    by (auto simp: train_step_def Let_def py_mod_def emit_def loss_def upd_def split: if_splits)
  show "stop = (max_steps a > 0 \<and> global_step st' > max_steps a)"
    using r proc l N0
    by (auto simp: train_step_def Let_def py_mod_def emit_def loss_def upd_def split: if_splits)
qed


lemma train_step_counts:
  assumes "train_step a model half_of_batch st step batch_all = Inr (st', stop)"
  shows "\<exists>es. trace st' = trace st @ es
            \<and> global_step st' = global_step st + int (count_list es OptimizerStep)"
proof (cases "steps_trained_in_current_epoch st > 0")
  case True
  with assms have "trace st' = trace st @ []
      \<and> global_step st' = global_step st + int (count_list [] OptimizerStep)"
    by (auto simp: train_step_def)
  then show ?thesis by blast
next
  case False
  from assms False obtain loss0 loss r where
    "sum_sub_losses a model None batch_all = Inr loss0"
    "scale_and_backward a loss0 = Inr loss"
    "py_mod (step + 1) (gradient_accumulation_steps a) = Inr r"
    by (auto simp: train_step_def Let_def split: sum.splits)
  with assms False show ?thesis
    by (auto simp: train_step_def Let_def emit_def split: if_splits)
qed

lemma in_epoch_loop_counts:
  "in_epoch_loop a model half_of_batch st fetched = Inr st' \<Longrightarrow>
   \<exists>es. trace st' = trace st @ es
      \<and> global_step st' = global_step st + int (count_list es OptimizerStep)"
proof (induction fetched arbitrary: st)
  case Nil
  then have "trace st' = trace st @ []
      \<and> global_step st' = global_step st + int (count_list [] OptimizerStep)"
    by simp
  then show ?case by blast
next
  case (Cons p rest)
  obtain step f where p: "p = (step, f)" by (cases p)
  from Cons.prems p obtain batch_all st1 stop where
    f: "f = Inr batch_all"
    and s: "train_step a model half_of_batch st (int step) batch_all = Inr (st1, stop)"
    and r: "(if stop then Inr st1 else in_epoch_loop a model half_of_batch st1 rest) = Inr st'"
    by (auto split: sum.splits)
  from train_step_counts [OF s] obtain es1 where
    e1: "trace st1 = trace st @ es1"
        "global_step st1 = global_step st + int (count_list es1 OptimizerStep)"
    by blast
  show ?case
  proof (cases stop)
    case True
    with r have "st' = st1" by simp
    with e1 show ?thesis by blast
  next
    case False
    with r have "in_epoch_loop a model half_of_batch st1 rest = Inr st'" by simp
    from Cons.IH [OF this] obtain es2 where
      e2: "trace st' = trace st1 @ es2"
          "global_step st' = global_step st1 + int (count_list es2 OptimizerStep)"
      by blast
    from e1 e2 have "trace st' = trace st @ (es1 @ es2)
        \<and> global_step st' = global_step st + int (count_list (es1 @ es2) OptimizerStep)"
      by simp
    then show ?thesis by blast
  qed
qed

lemma epoch_loop_counts:
  "epoch_loop a dl model st epochs = Inr st' \<Longrightarrow>
   \<exists>es. trace st' = trace st @ es
      \<and> global_step st' = global_step st + int (count_list es OptimizerStep)"
proof (induction epochs arbitrary: st)
  case Nil
  then have "trace st' = trace st @ []
      \<and> global_step st' = global_step st + int (count_list [] OptimizerStep)"
    by simp
  then show ?case by blast
next
  case (Cons epoch rest)
  define st2 where "st2 = (emit [ZeroGrad]
      (if sampling_type a = ''dynamic'' then emit [EvaluateForSampling] st else st))
      \<lparr>all_losses := []\<rparr>"
  from Cons.prems obtain st3 where
    i: "in_epoch_loop a model (int (dl_len dl) div 2) st2 (enumerate 0 (dl_iter dl epoch)) = Inr st3"
    by (auto simp: Let_def st2_def split: sum.splits)
  define st4 where "st4 = (if local_rank a = -1 \<or> local_rank a = 0
      then (emit [WriteLossValues epoch (mean_last10 (all_losses st3)),
                  SaveModel (save_model_dir a (global_step st3))] st3)\<lparr>all_losses := []\<rparr>
      else st3)"
  from Cons.prems have r:
    "(if max_steps a > 0 \<and> global_step st4 > max_steps a
      then Inr (emit [CloseTrainIterator] st4)
      else epoch_loop a dl model st4 rest) = Inr st'"
    unfolding epoch_loop.simps Let_def st2_def [symmetric] i sum.case st4_def [symmetric] .
  define es0 where
    "es0 = (if sampling_type a = ''dynamic'' then [EvaluateForSampling] else []) @ [ZeroGrad]"
  have e0: "trace st2 = trace st @ es0" "count_list es0 OptimizerStep = 0"
    "global_step st2 = global_step st"
    by (simp_all add: st2_def es0_def emit_def)
  from in_epoch_loop_counts [OF i] obtain es1 where
    e1: "trace st3 = trace st2 @ es1"
        "global_step st3 = global_step st2 + int (count_list es1 OptimizerStep)"
    by blast
  define es2 where
    "es2 = (if local_rank a = -1 \<or> local_rank a = 0
            then [WriteLossValues epoch (mean_last10 (all_losses st3)),
                  SaveModel (save_model_dir a (global_step st3))]
            else [])"
  have e2: "trace st4 = trace st3 @ es2" "count_list es2 OptimizerStep = 0"
    "global_step st4 = global_step st3"
    by (simp_all add: st4_def es2_def emit_def)
  show ?case
  proof (cases "max_steps a > 0 \<and> global_step st4 > max_steps a")
    case True
    with r have "st' = emit [CloseTrainIterator] st4" by simp
    with e0 e1 e2 have "trace st' = trace st @ (es0 @ es1 @ es2 @ [CloseTrainIterator])
        \<and> global_step st' = global_step st
            + int (count_list (es0 @ es1 @ es2 @ [CloseTrainIterator]) OptimizerStep)"
      by (simp add: emit_def)
    then show ?thesis by blast
  next
    case False
    with r have "epoch_loop a dl model st4 rest = Inr st'" by simp
    from Cons.IH [OF this] obtain es3 where
      e3: "trace st' = trace st4 @ es3"
          "global_step st' = global_step st4 + int (count_list es3 OptimizerStep)"
      by blast
    from e0 e1 e2 e3 have "trace st' = trace st @ (es0 @ es1 @ es2 @ es3)
        \<and> global_step st' = global_step st
            + int (count_list (es0 @ es1 @ es2 @ es3) OptimizerStep)"
      by simp
    then show ?thesis by blast
  qed
qed

lemma plan_epochs_fields:
  "plan_epochs a len_dl = Inr a' \<Longrightarrow>
   gradient_accumulation_steps a' = gradient_accumulation_steps a
   \<and> model_name_or_path a' = model_name_or_path a \<and> start_again a' = start_again a
   \<and> max_steps a' = max_steps a \<and> n_gpu a' = n_gpu a \<and> fp16 a' = fp16 a"
  by (auto simp: plan_epochs_def split: sum.splits if_splits)

lemma train_loop_fresh_counts:
  assumes "\<not> (path_exists fs (model_name_or_path a) \<and> \<not> start_again a)"
      and "train_loop a fs dl model = Inr st"
  shows "global_step st = int (count_list (trace st) OptimizerStep)"
proof -
  from assms(2) obtain a' where p: "plan_epochs a (dl_len dl) = Inr a'"
    by (auto simp: train_loop_def split: sum.splits)
  from plan_epochs_fields [OF p] assms(1)
  have rs: "resume_state a' fs (dl_len dl) = Inr (0, 0, 0)"
    by (auto simp: resume_state_def)
  from assms(2) p rs have
    "epoch_loop a' dl model
       \<lparr>global_step = 0, steps_trained_in_current_epoch = 0,
        tr_loss = 0, all_losses = [], trace = [ZeroGrad]\<rparr>
       [0 .. int_of_float (num_train_epochs a') - 1] = Inr st"
    by (simp add: train_loop_def)
  from epoch_loop_counts [OF this] show ?thesis by auto
qed

lemma update_condition_nat:
  assumes "1 \<le> N"
  shows "((int k + 1) mod N = 0) = (Suc k mod nat N = 0)"
proof -
  obtain n where N: "N = int n" using assms by (metis nat_0_le order_trans zero_le_one)
  have "(int k + 1) mod N = int (Suc k) mod int n"
    by (simp add: N add.commute)
  also have "\<dots> = int (Suc k mod n)"
    by (simp only: zmod_int)
  finally show ?thesis by (simp add: N)
qed

lemma in_epoch_loop_step:
  assumes "in_epoch_loop a model half_of_batch st ((step, f) # rest) = Inr st'"
  obtains batch_all st1 stop where
    "f = Inr batch_all"
    "train_step a model half_of_batch st (int step) batch_all = Inr (st1, stop)"
    "(if stop then Inr st1 else in_epoch_loop a model half_of_batch st1 rest) = Inr st'"
  using assms by (auto split: sum.splits)

lemma in_epoch_loop_updates:
  assumes "1 \<le> gradient_accumulation_steps a"
      and "max_steps a \<le> 0"
      and "steps_trained_in_current_epoch st \<le> 0"
      and "in_epoch_loop a model half_of_batch st (enumerate k fetched) = Inr st'"
  shows "global_step st' = global_step st
           + int ((k + length fetched) div nat (gradient_accumulation_steps a)
                  - k div nat (gradient_accumulation_steps a))
       \<and> steps_trained_in_current_epoch st' \<le> 0"
  using assms(3,4)
proof (induction fetched arbitrary: st k)
  case Nil
  then show ?case by simp
next
  case (Cons f rest)
  let ?n = "nat (gradient_accumulation_steps a)"
  from Cons.prems(2) have
    "in_epoch_loop a model half_of_batch st ((k, f) # enumerate (Suc k) rest) = Inr st'"
    by simp
  then obtain batch_all st1 stop where
    s: "train_step a model half_of_batch st (int k) batch_all = Inr (st1, stop)"
    and r: "(if stop then Inr st1
             else in_epoch_loop a model half_of_batch st1 (enumerate (Suc k) rest)) = Inr st'"
    by (rule in_epoch_loop_step)
  note p = train_step_processed [OF s Cons.prems(1) assms(1)]
  from p(5) assms(2) have "\<not> stop" by simp
  with r have c: "in_epoch_loop a model half_of_batch st1 (enumerate (Suc k) rest) = Inr st'"
    by simp
  from p(4) Cons.prems(1) have sk: "steps_trained_in_current_epoch st1 \<le> 0" by simp
  from Cons.IH [OF sk c] have
    ih: "global_step st' = global_step st1 + int ((Suc k + length rest) div ?n - Suc k div ?n)"
        "steps_trained_in_current_epoch st' \<le> 0"
    by simp_all
  have g1: "global_step st1 = global_step st + (if Suc k mod ?n = 0 then 1 else 0)"
    using p(2) update_condition_nat [OF assms(1), of k] by simp
  have mono: "Suc k div ?n \<le> (Suc k + length rest) div ?n"
    by (rule div_le_mono) simp
  have "k div ?n + (if Suc k mod ?n = 0 then 1 else 0) = Suc k div ?n"
    by (simp add: div_Suc)
  with ih g1 mono show ?case by (auto split: if_splits)
qed

lemma in_epoch_loop_no_update:
  assumes "1 \<le> gradient_accumulation_steps a"
      and "k + length fetched < nat (gradient_accumulation_steps a)"
      and "steps_trained_in_current_epoch st \<le> 0"
      and "in_epoch_loop a model half_of_batch st (enumerate k fetched) = Inr st'"
  shows "global_step st' = global_step st \<and> steps_trained_in_current_epoch st' \<le> 0"
  using assms(2,3,4)
proof (induction fetched arbitrary: st k)
  case Nil
  then show ?case by simp
next
  case (Cons f rest)
  let ?n = "nat (gradient_accumulation_steps a)"
  from Cons.prems(3) have
    "in_epoch_loop a model half_of_batch st ((k, f) # enumerate (Suc k) rest) = Inr st'"
    by simp
  then obtain batch_all st1 stop where
    s: "train_step a model half_of_batch st (int k) batch_all = Inr (st1, stop)"
    and r: "(if stop then Inr st1
             else in_epoch_loop a model half_of_batch st1 (enumerate (Suc k) rest)) = Inr st'"
    by (rule in_epoch_loop_step)
  note p = train_step_processed [OF s Cons.prems(2) assms(1)]
  from Cons.prems(1) have "Suc k mod ?n \<noteq> 0" by simp
  with p(2) update_condition_nat [OF assms(1), of k]
  have g1: "global_step st1 = global_step st" by simp
  from p(4) Cons.prems(2) have sk: "steps_trained_in_current_epoch st1 \<le> 0" by simp
  show ?case
  proof (cases stop)
    case True
    with r have "st' = st1" by simp
    with g1 sk show ?thesis by simp
  next
    case False
    with r have c: "in_epoch_loop a model half_of_batch st1 (enumerate (Suc k) rest) = Inr st'"
      by simp
    from Cons.prems(1) have "Suc k + length rest < ?n" by simp
    from Cons.IH [OF this sk c] g1 show ?thesis by simp
  qed
qed

lemma epoch_loop_no_update:
  assumes "1 \<le> gradient_accumulation_steps a"
      and "\<forall>epoch. length (dl_iter dl epoch) < nat (gradient_accumulation_steps a)"
      and "steps_trained_in_current_epoch st \<le> 0"
      and "epoch_loop a dl model st epochs = Inr st'"
  shows "global_step st' = global_step st"
  using assms(3,4)
proof (induction epochs arbitrary: st)
  case Nil
  then show ?case by simp
next
  case (Cons epoch rest)
  define st2 where "st2 = (emit [ZeroGrad]
      (if sampling_type a = ''dynamic'' then emit [EvaluateForSampling] st else st))
      \<lparr>all_losses := []\<rparr>"
  from Cons.prems(2) obtain st3 where
    i: "in_epoch_loop a model (int (dl_len dl) div 2) st2 (enumerate 0 (dl_iter dl epoch)) = Inr st3"
    by (auto simp: Let_def st2_def split: sum.splits)
  define st4 where "st4 = (if local_rank a = -1 \<or> local_rank a = 0
      then (emit [WriteLossValues epoch (mean_last10 (all_losses st3)),
                  SaveModel (save_model_dir a (global_step st3))] st3)\<lparr>all_losses := []\<rparr>
      else st3)"
  from Cons.prems(2) have r:
    "(if max_steps a > 0 \<and> global_step st4 > max_steps a
      then Inr (emit [CloseTrainIterator] st4)
      else epoch_loop a dl model st4 rest) = Inr st'"
    unfolding epoch_loop.simps Let_def st2_def [symmetric] i sum.case st4_def [symmetric] .
  have e0: "global_step st2 = global_step st" "steps_trained_in_current_epoch st2 \<le> 0"
    using Cons.prems(1) by (simp_all add: st2_def emit_def)
  from assms(2) have "0 + length (dl_iter dl epoch) < nat (gradient_accumulation_steps a)"
    by simp
  from in_epoch_loop_no_update [OF assms(1) this e0(2) i]
  have e1: "global_step st3 = global_step st2" "steps_trained_in_current_epoch st3 \<le> 0"
    by simp_all
  have e2: "global_step st4 = global_step st3" "steps_trained_in_current_epoch st4 \<le> 0"
    using e1(2) by (simp_all add: st4_def emit_def)
  show ?case
  proof (cases "max_steps a > 0 \<and> global_step st4 > max_steps a")
    case True
    with r have "st' = emit [CloseTrainIterator] st4" by simp
    with e0 e1 e2 show ?thesis by (simp add: emit_def)
  next
    case False
    with r have "epoch_loop a dl model st4 rest = Inr st'" by simp
    from Cons.IH [OF e2(2) this] e0 e1 e2 show ?thesis by simp
  qed
qed

text \<open>
  Claim C1. Let N \<ge> 1 be the accumulation window and take a raw step the loop processes
  (it is not one of the steps skipped on resume) and completes. The loss of the step, the
  sum of the losses of its sub-batches (one sub-batch in dense mode), is divided by N
  before the backward pass and before it is added to \<open>tr_loss\<close>. Gradient clipping, the
  optimizer step, the scheduler step and the gradient reset happen in this step, in this
  order, exactly when \<open>step + 1\<close> is a multiple of N, and \<open>global_step\<close> grows by one
  exactly then and stays as it is otherwise. Over the raw batches of an epoch that no
  step cap cuts short, the optimizer is therefore stepped once per N raw batches:
  after L raw batches \<open>global_step\<close> has grown by L div N, which is the number of
  optimizer steps taken.
\<close>

theorem accumulation_contract:
  assumes N: "1 \<le> gradient_accumulation_steps a"
      and proc: "steps_trained_in_current_epoch st \<le> 0"
  shows "(train_step a model half_of_batch st step batch_all = Inr (st', stop) \<longrightarrow>
            tr_loss st' = tr_loss st
              + sum_list (map model batch_all) / real_of_int (gradient_accumulation_steps a)
          \<and> Backward (sum_list (map model batch_all) / real_of_int (gradient_accumulation_steps a))
              \<in> set (events_since st st')
          \<and> update_events (events_since st st')
              = (if (step + 1) mod gradient_accumulation_steps a = 0
                 then [ClipGradNorm, OptimizerStep, SchedulerStep, ZeroGrad] else [])
          \<and> global_step st'
              = global_step st + (if (step + 1) mod gradient_accumulation_steps a = 0 then 1 else 0))
       \<and> (max_steps a \<le> 0
            \<and> in_epoch_loop a model half_of_batch st (enumerate 0 fetched) = Inr st'' \<longrightarrow>
            global_step st''
              = global_step st + int (length fetched div nat (gradient_accumulation_steps a))
          \<and> count_list (events_since st st'') OptimizerStep
              = length fetched div nat (gradient_accumulation_steps a))"
proof (intro conjI impI)
  assume run: "train_step a model half_of_batch st step batch_all = Inr (st', stop)"
  note p = train_step_processed [OF run proc N]
  show "tr_loss st' = tr_loss st
          + sum_list (map model batch_all) / real_of_int (gradient_accumulation_steps a)"
    by (rule p(3))
  show "Backward (sum_list (map model batch_all) / real_of_int (gradient_accumulation_steps a))
          \<in> set (events_since st st')"
    by (simp add: events_since_def p(1))
  show "update_events (events_since st st')
          = (if (step + 1) mod gradient_accumulation_steps a = 0
             then [ClipGradNorm, OptimizerStep, SchedulerStep, ZeroGrad] else [])"
    by (simp add: events_since_def update_events_def p(1))
  show "global_step st'
          = global_step st + (if (step + 1) mod gradient_accumulation_steps a = 0 then 1 else 0)"
    by (rule p(2))
next
  assume h: "max_steps a \<le> 0
    \<and> in_epoch_loop a model half_of_batch st (enumerate 0 fetched) = Inr st''"
  from in_epoch_loop_updates [OF N _ proc, of model half_of_batch 0 fetched st''] h
  show g: "global_step st''
      = global_step st + int (length fetched div nat (gradient_accumulation_steps a))"
    by simp
  from h in_epoch_loop_counts obtain es where
    "trace st'' = trace st @ es"
    "global_step st'' = global_step st + int (count_list es OptimizerStep)"
    by blast
  with g show "count_list (events_since st st'') OptimizerStep
      = length fetched div nat (gradient_accumulation_steps a)"
    by (simp add: events_since_def)
qed

theorem accumulation_contract_witness:
  "1 \<le> gradient_accumulation_steps
        ((default_args ''d0 d1'' ''bert'' ''bert-base-uncased'' ''rte mrpc'' ''out'')
           \<lparr>gradient_accumulation_steps := 2\<rparr>)
   \<and> (\<exists>st' stop.
         train_step
           ((default_args ''d0 d1'' ''bert'' ''bert-base-uncased'' ''rte mrpc'' ''out'')
              \<lparr>gradient_accumulation_steps := 2\<rparr>)
           (\<lambda>b. 3) 5
           \<lparr>global_step = 0, steps_trained_in_current_epoch = 0, tr_loss = 0,
            all_losses = [], trace = [ZeroGrad]\<rparr> 1 [(), ()] = Inr (st', stop)
       \<and> tr_loss st' = 3 \<and> global_step st' = 1)
   \<and> (\<exists>st''.
         in_epoch_loop
           ((default_args ''d0 d1'' ''bert'' ''bert-base-uncased'' ''rte mrpc'' ''out'')
              \<lparr>gradient_accumulation_steps := 2\<rparr>)
           (\<lambda>b. 3) 5
           \<lparr>global_step = 0, steps_trained_in_current_epoch = 0, tr_loss = 0,
            all_losses = [], trace = [ZeroGrad]\<rparr>
           (enumerate 0 [Inr [()], Inr [()], Inr [()]]) = Inr st''
       \<and> global_step st'' = 1)"
proof -
  let ?a = "(default_args ''d0 d1'' ''bert'' ''bert-base-uncased'' ''rte mrpc'' ''out'')
              \<lparr>gradient_accumulation_steps := 2\<rparr>"
  let ?st = "\<lparr>global_step = 0, steps_trained_in_current_epoch = 0, tr_loss = 0,
              all_losses = [], trace = [ZeroGrad]\<rparr>"
  have N: "1 \<le> gradient_accumulation_steps ?a" by simp
  have P: "steps_trained_in_current_epoch ?st \<le> 0" by simp
  have m: "max_steps ?a \<le> 0" by (simp add: default_args_def)
  have "\<exists>st' stop. train_step ?a (\<lambda>b. 3) 5 ?st 1 [(), ()] = Inr (st', stop)"
    by (auto simp: train_step_def default_args_def scale_and_backward_def py_mod_def
          emit_def Let_def)
  then obtain st' stop where r1: "train_step ?a (\<lambda>b. 3) 5 ?st 1 [(), ()] = Inr (st', stop)"
    by blast
  have "\<exists>st''. in_epoch_loop ?a (\<lambda>b. 3) 5 ?st (enumerate 0 [Inr [()], Inr [()], Inr [()]])
          = Inr st''"
    by (auto simp: train_step_def default_args_def scale_and_backward_def py_mod_def
          emit_def Let_def)
  then obtain st'' where
    r2: "in_epoch_loop ?a (\<lambda>b. 3) 5 ?st (enumerate 0 [Inr [()], Inr [()], Inr [()]]) = Inr st''"
    by blast
  from accumulation_contract [OF N P, THEN conjunct1, rule_format, OF r1]
  have A: "tr_loss st' = 3 \<and> global_step st' = 1" by simp
  from accumulation_contract [OF N P, THEN conjunct2, rule_format, OF conjI [OF m r2]]
  have B: "global_step st'' = 1" by simp
  from N r1 r2 A B show ?thesis by blast
qed


text \<open>
  Claim C10. In a run that does not resume from a checkpoint, \<open>global_step\<close> at the end
  of the loops of train is the number of optimizer steps taken. So whenever the loops end
  without any optimizer update, \<open>global_step\<close> is still 0 and the return expression
  \<open>tr_loss / global_step\<close> raises ZeroDivisionError; when train returns normally, at
  least one optimizer update has happened; and when no raw step can meet the accumulation
  condition (every epoch yields fewer raw batches than the accumulation window N \<ge> 1),
  no optimizer step is taken and train does not return normally.
\<close>

theorem train_returns_only_after_update:
  assumes fresh: "\<not> (path_exists fs (model_name_or_path a) \<and> \<not> start_again a)"
  shows "(train_loop a fs dl model = Inr st \<and> count_list (trace st) OptimizerStep = 0 \<longrightarrow>
            global_step st = 0 \<and> train a fs dl model = Inl ZeroDivisionError)
       \<and> (train a fs dl model = Inr (gs, avg, tr) \<longrightarrow>
            1 \<le> gs \<and> int (count_list tr OptimizerStep) = gs)
       \<and> (1 \<le> gradient_accumulation_steps a
            \<and> (\<forall>epoch. length (dl_iter dl epoch) < nat (gradient_accumulation_steps a)) \<longrightarrow>
            (\<exists>e. train a fs dl model = Inl e)
          \<and> (train_loop a fs dl model = Inr st \<longrightarrow>
                count_list (trace st) OptimizerStep = 0))"
proof (intro conjI impI)
  assume h: "train_loop a fs dl model = Inr st \<and> count_list (trace st) OptimizerStep = 0"
  with train_loop_fresh_counts [OF fresh, of dl model st]
  show "global_step st = 0" by simp
  with h show "train a fs dl model = Inl ZeroDivisionError"
    by (simp add: train_def)
next
  assume r: "train a fs dl model = Inr (gs, avg, tr)"
  then obtain st' where l: "train_loop a fs dl model = Inr st'"
    and g: "global_step st' \<noteq> 0" "gs = global_step st'" "tr = trace st'"
    by (auto simp: train_def split: sum.splits if_splits)
  from train_loop_fresh_counts [OF fresh l] g
  show "1 \<le> gs" and "int (count_list tr OptimizerStep) = gs" by simp_all
next
  assume h: "1 \<le> gradient_accumulation_steps a
      \<and> (\<forall>epoch. length (dl_iter dl epoch) < nat (gradient_accumulation_steps a))"
  have zero: "global_step s = 0" if l: "train_loop a fs dl model = Inr s" for s
  proof -
    from l obtain a' where p: "plan_epochs a (dl_len dl) = Inr a'"
      by (auto simp: train_loop_def split: sum.splits)
    note f = plan_epochs_fields [OF p]
    from f fresh have rs: "resume_state a' fs (dl_len dl) = Inr (0, 0, 0)"
      by (auto simp: resume_state_def)
    let ?st0 = "\<lparr>global_step = 0, steps_trained_in_current_epoch = 0,
                 tr_loss = 0, all_losses = [], trace = [ZeroGrad]\<rparr>"
    from l p rs have e: "epoch_loop a' dl model ?st0
        [0 .. int_of_float (num_train_epochs a') - 1] = Inr s"
      by (simp add: train_loop_def)
    have N': "1 \<le> gradient_accumulation_steps a'" using f h by simp
    have short: "\<forall>epoch. length (dl_iter dl epoch) < nat (gradient_accumulation_steps a')"
      using f h by simp
    have "steps_trained_in_current_epoch ?st0 \<le> 0" by simp
    from epoch_loop_no_update [OF N' short this e] show ?thesis by simp
  qed
  show "\<exists>e. train a fs dl model = Inl e"
  proof (cases "train_loop a fs dl model")
    case (Inl e)
    then show ?thesis by (simp add: train_def)
  next
    case (Inr s)
    with zero [OF Inr] show ?thesis by (simp add: train_def)
  qed
  {
    assume l: "train_loop a fs dl model = Inr st"
    with zero [OF l] train_loop_fresh_counts [OF fresh l]
    show "count_list (trace st) OptimizerStep = 0" by simp
  }
qed

lemma upto_0_2: "[0..2::int] = [0, 1, 2]"
  by (simp add: upto.simps)

lemma upto_0_0: "[0..0::int] = [0]"
  by (simp add: upto.simps)

theorem train_returns_only_after_update_witness:
  "\<not> (path_exists \<lparr>path_exists = (\<lambda>p. False), path_isfile = (\<lambda>p. False), listdir = (\<lambda>p. [])\<rparr>
          (model_name_or_path
             (default_args ''d0 d1'' ''bert'' ''bert-base-uncased'' ''rte mrpc'' ''out''))
        \<and> \<not> start_again
             (default_args ''d0 d1'' ''bert'' ''bert-base-uncased'' ''rte mrpc'' ''out''))
   \<and> (\<exists>avg tr.
         train (default_args ''d0 d1'' ''bert'' ''bert-base-uncased'' ''rte mrpc'' ''out'')
           \<lparr>path_exists = (\<lambda>p. False), path_isfile = (\<lambda>p. False), listdir = (\<lambda>p. [])\<rparr>
           \<lparr>dl_len = 1, dl_iter = (\<lambda>epoch. [Inr [()]])\<rparr> (\<lambda>b. 1) = Inr (3, avg, tr)
       \<and> int (count_list tr OptimizerStep) = 3)
   \<and> train ((default_args ''d0 d1'' ''bert'' ''bert-base-uncased'' ''rte mrpc'' ''out'')
               \<lparr>gradient_accumulation_steps := 2\<rparr>)
        \<lparr>path_exists = (\<lambda>p. False), path_isfile = (\<lambda>p. False), listdir = (\<lambda>p. [])\<rparr>
        \<lparr>dl_len = 1, dl_iter = (\<lambda>epoch. [Inr [()]])\<rparr> (\<lambda>b. 1) = Inl ZeroDivisionError"
proof -
  let ?a1 = "default_args ''d0 d1'' ''bert'' ''bert-base-uncased'' ''rte mrpc'' ''out''"
  let ?a2 = "?a1\<lparr>gradient_accumulation_steps := 2\<rparr>"
  let ?fs = "\<lparr>path_exists = (\<lambda>p. False), path_isfile = (\<lambda>p. False), listdir = (\<lambda>p. [])\<rparr>"
  let ?dl = "\<lparr>dl_len = 1, dl_iter = (\<lambda>epoch. [Inr [()]])\<rparr> :: unit dataloader"
  have f1: "\<not> (path_exists ?fs (model_name_or_path ?a1) \<and> \<not> start_again ?a1)" by simp
  have f2: "\<not> (path_exists ?fs (model_name_or_path ?a2) \<and> \<not> start_again ?a2)" by simp
  have "\<exists>avg tr. train ?a1 ?fs ?dl (\<lambda>b. 1) = Inr (3, avg, tr)"
    by (auto simp: train_def train_loop_def plan_epochs_def resume_state_def py_floordiv_def
          default_args_def int_of_float_def upto_0_2
          train_step_def scale_and_backward_def py_mod_def emit_def Let_def)
  then obtain avg tr where r: "train ?a1 ?fs ?dl (\<lambda>b. 1) = Inr (3, avg, tr)" by blast
  from train_returns_only_after_update [OF f1, THEN conjunct2, THEN conjunct1, rule_format, OF r]
  have c: "int (count_list tr OptimizerStep) = 3" by simp
  have "\<exists>st. train_loop ?a2 ?fs ?dl (\<lambda>b. 1) = Inr st"
    by (auto simp: train_loop_def plan_epochs_def resume_state_def py_floordiv_def
          default_args_def int_of_float_def upto_0_2
          train_step_def scale_and_backward_def py_mod_def emit_def Let_def)
  then obtain st where l: "train_loop ?a2 ?fs ?dl (\<lambda>b. 1) = Inr st" by blast
  have h: "1 \<le> gradient_accumulation_steps ?a2
      \<and> (\<forall>epoch. length (dl_iter ?dl epoch) < nat (gradient_accumulation_steps ?a2))"
    by simp
  from train_returns_only_after_update [OF f2, THEN conjunct2, THEN conjunct2, rule_format,
      OF h, THEN conjunct2, rule_format, OF l]
  have n: "count_list (trace st) OptimizerStep = 0" .
  from train_returns_only_after_update [OF f2, THEN conjunct1, rule_format, OF conjI [OF l n]]
  have z: "train ?a2 ?fs ?dl (\<lambda>b. 1) = Inl ZeroDivisionError" by simp
  from f1 r c z show ?thesis by blast
qed

text \<open>
  Claim C8 at a concrete run: with \<open>max_steps = 1\<close>, an accumulation window of 1 and
  three raw batches per epoch, train returns \<open>global_step = 2\<close> after two optimizer
  steps. The test at lines 480 and 499 is \<open>global_step > args.max_steps\<close>, so the loop
  stops one update after the cap.
\<close>

theorem max_steps_overrun:
  "(case train
         ((default_args ''d0 d1'' ''bert'' ''bert-base-uncased'' ''rte mrpc'' ''out'')
            \<lparr>max_steps := 1\<rparr>)
         \<lparr>path_exists = (\<lambda>p. False), path_isfile = (\<lambda>p. False), listdir = (\<lambda>p. [])\<rparr>
         \<lparr>dl_len = 3, dl_iter = (\<lambda>epoch. [Inr [()], Inr [()], Inr [()]])\<rparr> (\<lambda>b. 1) of
       Inl e \<Rightarrow> None
     | Inr (gs, avg, tr) \<Rightarrow> Some (gs, count_list tr OptimizerStep)) = Some (2, 2)"
  by (simp add: train_def train_loop_def plan_epochs_def resume_state_def py_floordiv_def
        default_args_def int_of_float_def upto_0_0
        train_step_def scale_and_backward_def py_mod_def emit_def Let_def)

section \<open>Checkpoint names and resume\<close>



















section \<open>Start-up, evaluation and the feature cache\<close>

text \<open>
  Claim C5 at a concrete start: the output directory holds \<open>results.json\<close>, the file a
  finished run writes, and nothing else. The guard at line 996 tests for \<open>results.csv\<close>,
  so an evaluation-only run does not exit: it goes on to load the model. With
  \<open>--do_train\<close> and without \<open>--overwrite_output_dir\<close> the same directory makes main raise
  ValueError at line 990. In neither case does the run exit with status 0.
\<close>

theorem results_json_does_not_stop_the_run:
  "path_isfile
     \<lparr>path_exists = (\<lambda>p. p = ''out'' \<or> p = ''out/results.json''),
      path_isfile = (\<lambda>p. p = ''out/results.json''),
      listdir = (\<lambda>p. if p = ''out'' then [''results.json''] else [])\<rparr>
     (results_file (default_args ''d0'' ''bert'' ''bert-base-uncased'' ''rte'' ''out''))
   \<and> \<not> isl (main_startup
        \<lparr>path_exists = (\<lambda>p. p = ''out'' \<or> p = ''out/results.json''),
         path_isfile = (\<lambda>p. p = ''out/results.json''),
         listdir = (\<lambda>p. if p = ''out'' then [''results.json''] else [])\<rparr>
        (\<lambda>name. if name = ''rte''
           then Some \<lparr>get_labels = [''entailment'', ''not_entailment''],
                      get_train_examples = (\<lambda>d. Inr [()]),
                      get_dev_examples = (\<lambda>d. Inr [()])\<rparr>
           else None)
        ((default_args ''d0'' ''bert'' ''bert-base-uncased'' ''rte'' ''out'')\<lparr>do_eval := True\<rparr>))
   \<and> main_startup
        \<lparr>path_exists = (\<lambda>p. p = ''out'' \<or> p = ''out/results.json''),
         path_isfile = (\<lambda>p. p = ''out/results.json''),
         listdir = (\<lambda>p. if p = ''out'' then [''results.json''] else [])\<rparr>
        (\<lambda>name. if name = ''rte''
           then Some \<lparr>get_labels = [''entailment'', ''not_entailment''],
                      get_train_examples = (\<lambda>d. Inr [()]),
                      get_dev_examples = (\<lambda>d. Inr [()])\<rparr>
           else None)
        ((default_args ''d0'' ''bert'' ''bert-base-uncased'' ''rte'' ''out'')\<lparr>do_train := True\<rparr>)
       = Inl (ValueError
           ''Output directory (out) already exists and is not empty. Use --overwrite_output_dir to overcome.'')"
  by (simp add: main_startup_def results_file_def path_join_def default_args_def
        py_lower_def lower_char_def MODEL_CLASSES_def Let_def)

text \<open>
  Claim C6 at a concrete call: for the single task \<open>mnli\<close> the names of the evaluations are
  the one-element tuple \<open>("mnli",)\<close>, so the \<open>zip\<close> with the two output directories keeps
  one pair. evaluate runs one evaluation, writes one report and returns one result key;
  the mismatched split is not evaluated and the directory with the suffix \<open>-MM\<close> is not
  used.
\<close>

theorem evaluate_mnli_single_variant:
  "zip (eval_task_names ''mnli'')
       (eval_outputs_dirs
          ((default_args ''d0'' ''bert'' ''bert-base-uncased'' ''mnli'' ''out'')
             \<lparr>task_names := [''mnli''], task_list := [''mnli''],
              data_dir_list := [''d0''], num_label_list := [3]\<rparr>) ''mnli'')
     = [(''mnli'', ''out'')]
   \<and> evaluate
        ((default_args ''d0'' ''bert'' ''bert-base-uncased'' ''mnli'' ''out'')
           \<lparr>task_names := [''mnli''], task_list := [''mnli''],
            data_dir_list := [''d0''], num_label_list := [3]\<rparr>)
        (\<lambda>task t d num_labels. Inr [(''acc'', 1)]) ''''
       = Inr ([(''mnli'', [(''acc'', 1)])], [''out/eval_results.txt''])"
  by (simp add: evaluate_def eval_task_names_def eval_outputs_dirs_def default_args_def
        list_get_def dict_update_def path_join_def)

text \<open>
  Claim C7, as the code has it. The value of \<open>--batch_type\<close> is never examined: whatever
  string it is, main reaches the loading of the model with the same outcome (the same
  exception, or the same namespace up to that field), and train chooses the dense
  loader exactly when the output directory name contains \<open>dnc\<close> or \<open>size_experiment\<close>,
  and the split loader otherwise.
\<close>

theorem batch_type_is_not_examined:
  "main_startup fs processors (a\<lparr>batch_type := b\<rparr>)
     = map_sum id (batch_type_update (\<lambda>_. b)) (main_startup fs processors a)
   \<and> train_collate_fn (a\<lparr>batch_type := b\<rparr>) default_collate
       = train_collate_fn a default_collate
   \<and> dense_dataloader (a\<lparr>batch_type := b\<rparr>)
       = (py_in ''dnc'' (output_dir a) \<or> py_in ''size_experiment'' (output_dir a))
   \<and> train_collate_fn (a\<lparr>batch_type := b\<rparr>) default_collate
       = (if py_in ''dnc'' (output_dir a) \<or> py_in ''size_experiment'' (output_dir a)
          then dense_collate default_collate
          else collate_func default_collate (length (data_dir_list a)))"
  by (auto simp: main_startup_def train_collate_fn_def dense_dataloader_def Let_def
        split: sum.splits)

text \<open>
  Claim C7 as stated fails: with a batching mode outside the documented set, start-up
  raises nothing and goes on to load the model.
\<close>

theorem unknown_batch_type_counterexample:
  "\<not> isl (main_startup
        \<lparr>path_exists = (\<lambda>p. False), path_isfile = (\<lambda>p. False), listdir = (\<lambda>p. [])\<rparr>
        (\<lambda>name. if name = ''rte''
           then Some \<lparr>get_labels = [''entailment'', ''not_entailment''],
                      get_train_examples = (\<lambda>d. Inr [()]),
                      get_dev_examples = (\<lambda>d. Inr [()])\<rparr>
           else None)
        ((default_args ''d0'' ''bert'' ''bert-base-uncased'' ''rte'' ''out'')
           \<lparr>do_train := True, batch_type := ''no_such_mode''\<rparr>))"
  by (simp add: main_startup_def path_join_def default_args_def
        py_lower_def lower_char_def MODEL_CLASSES_def Let_def)

text \<open>
  Claim C9, as the code has it. Once the wait of a later process for the first one has
  ended (no wait on rank -1 or 0, or for the held-out split) with the cache \<open>cache1\<close>, and
  with the task and the cache file name resolved, load\_and\_cache\_examples returns the
  cached features, writing nothing, if and only if the cache file exists and
  \<open>overwrite_cache\<close> is unset. Otherwise it regenerates the features from the source
  examples: an exception of the regeneration is the result of the call, and on success the
  features are returned and are written to the cache file when \<open>local_rank\<close> is -1 or 0,
  while on any other rank nothing is written and the cache is left as it is.
\<close>

theorem load_and_cache_examples_cache_policy:
  assumes "wait_for_first_process a evaluate_flag barrier cache = Inr cache1"
      and "lookup_task processors output_modes task = Inr (processor, output_mode)"
      and "cached_features_file a task data_dir evaluate_flag = Inr file"
  shows "(cache1 file \<noteq> None \<and> \<not> overwrite_cache a \<longrightarrow>
            load_and_cache_examples a processors output_modes convert barrier cache task
              data_dir evaluate_flag shorten
            = release_other_processes a evaluate_flag barrier (the (cache1 file), cache1, []))
       \<and> (\<not> (cache1 file \<noteq> None \<and> \<not> overwrite_cache a) \<longrightarrow>
            (\<forall>e. regenerate_features a processor output_mode convert task data_dir
                    evaluate_flag shorten = Inl e \<longrightarrow>
                  load_and_cache_examples a processors output_modes convert barrier cache
                    task data_dir evaluate_flag shorten = Inl e)
          \<and> (\<forall>features. regenerate_features a processor output_mode convert task data_dir
                    evaluate_flag shorten = Inr features \<longrightarrow>
                  load_and_cache_examples a processors output_modes convert barrier cache
                    task data_dir evaluate_flag shorten
                  = release_other_processes a evaluate_flag barrier
                      (if local_rank a = -1 \<or> local_rank a = 0
                       then (features, cache1(file \<mapsto> features), [file])
                       else (features, cache1, []))))
       \<and> (\<not> (local_rank a = 0 \<and> \<not> evaluate_flag) \<longrightarrow>
            release_other_processes a evaluate_flag barrier (fs, c, saved) = Inr (fs, c, saved))"
  using assms
  by (auto simp: load_and_cache_examples_def load_or_create_features_def
        release_other_processes_def)

theorem load_and_cache_examples_cache_policy_witness:
  "wait_for_first_process (default_args ''d0'' ''bert'' ''bert-base-uncased'' ''rte'' ''out'')
     False Inr (Map.empty(''d0/cached_train_bert-base-uncased_128_rte'' \<mapsto> [1, 2 :: nat]))
     = Inr (Map.empty(''d0/cached_train_bert-base-uncased_128_rte'' \<mapsto> [1, 2]))
   \<and> lookup_task
     (\<lambda>name. if name = ''rte''
        then Some \<lparr>get_labels = [''entailment'', ''not_entailment''],
                   get_train_examples = (\<lambda>d. Inr [10, 20, 30 :: nat]),
                   get_dev_examples = (\<lambda>d. Inr [40])\<rparr>
        else None)
     (\<lambda>name. if name = ''rte'' then Some ''classification'' else None) ''rte''
     = Inr (\<lparr>get_labels = [''entailment'', ''not_entailment''],
             get_train_examples = (\<lambda>d. Inr [10, 20, 30 :: nat]),
             get_dev_examples = (\<lambda>d. Inr [40])\<rparr>, ''classification'')
   \<and> cached_features_file (default_args ''d0'' ''bert'' ''bert-base-uncased'' ''rte'' ''out'')
        ''rte'' ''d0'' False = Inr ''d0/cached_train_bert-base-uncased_128_rte''
   \<and> load_and_cache_examples (default_args ''d0'' ''bert'' ''bert-base-uncased'' ''rte'' ''out'')
        (\<lambda>name. if name = ''rte''
           then Some \<lparr>get_labels = [''entailment'', ''not_entailment''],
                      get_train_examples = (\<lambda>d. Inr [10, 20, 30 :: nat]),
                      get_dev_examples = (\<lambda>d. Inr [40])\<rparr>
           else None)
        (\<lambda>name. if name = ''rte'' then Some ''classification'' else None)
        (\<lambda>labels mode examples. Inr (map Suc examples)) Inr
        (Map.empty(''d0/cached_train_bert-base-uncased_128_rte'' \<mapsto> [1, 2 :: nat]))
        ''rte'' ''d0'' False False
       = Inr ([1, 2], Map.empty(''d0/cached_train_bert-base-uncased_128_rte'' \<mapsto> [1, 2]), [])
   \<and> load_and_cache_examples (default_args ''d0'' ''bert'' ''bert-base-uncased'' ''rte'' ''out'')
        (\<lambda>name. if name = ''rte''
           then Some \<lparr>get_labels = [''entailment'', ''not_entailment''],
                      get_train_examples = (\<lambda>d. Inr [10, 20, 30 :: nat]),
                      get_dev_examples = (\<lambda>d. Inr [40])\<rparr>
           else None)
        (\<lambda>name. if name = ''rte'' then Some ''classification'' else None)
        (\<lambda>labels mode examples. Inr (map Suc examples)) Inr
        Map.empty ''rte'' ''d0'' False False
       = Inr ([11, 21, 31],
              Map.empty(''d0/cached_train_bert-base-uncased_128_rte'' \<mapsto> [11, 21, 31]),
              [''d0/cached_train_bert-base-uncased_128_rte''])"
proof -
  let ?p = "\<lparr>get_labels = [''entailment'', ''not_entailment''],
             get_train_examples = (\<lambda>d. Inr [10, 20, 30 :: nat]),
             get_dev_examples = (\<lambda>d. Inr [40])\<rparr> :: nat processor"
  let ?procs = "\<lambda>name. if name = ''rte'' then Some ?p else None"
  let ?modes = "\<lambda>name. if name = ''rte'' then Some ''classification'' else None"
  let ?a = "default_args ''d0'' ''bert'' ''bert-base-uncased'' ''rte'' ''out''"
  let ?file = "''d0/cached_train_bert-base-uncased_128_rte''"
  let ?convert = "\<lambda>(labels :: string list) (mode :: string) examples. Inr (map Suc examples)
                    :: error + nat list"
  let ?barrier = "Inr :: (string \<Rightarrow> nat list option) \<Rightarrow> error + (string \<Rightarrow> nat list option)"
  have lr: "local_rank ?a = -1" by (simp add: default_args_def)
  have ow: "\<not> overwrite_cache ?a" by (simp add: default_args_def)
  have w: "wait_for_first_process ?a False ?barrier c = Inr c" for c
    by (simp add: wait_for_first_process_def lr)
  have l: "lookup_task ?procs ?modes ''rte'' = Inr (?p, ''classification'')"
    by (simp add: lookup_task_def)
  have s128: "str_int 128 = ''128''"
    by (simp add: str_int_def str_nat.simps [of 128] str_nat.simps [of 12]
          str_nat.simps [of "Suc 0"] digit_char_def)
  have f: "cached_features_file ?a ''rte'' ''d0'' False = Inr ?file"
    by (simp add: cached_features_file_def default_args_def path_join_def s128)
  have g: "regenerate_features ?a ?p ''classification'' ?convert ''rte'' ''d0'' False False
             = Inr [11, 21, 31]"
    by (simp add: regenerate_features_def label_list_for_def default_args_def)
  note t = load_and_cache_examples_cache_policy [OF w l f]
  from t [of "Map.empty(?file \<mapsto> [1, 2])" ?convert False "[1, 2]"
             "Map.empty(?file \<mapsto> [1, 2])" "[]"] ow lr
  have hit: "load_and_cache_examples ?a ?procs ?modes ?convert ?barrier
               (Map.empty(?file \<mapsto> [1, 2])) ''rte'' ''d0'' False False
             = Inr ([1, 2], Map.empty(?file \<mapsto> [1, 2]), [])"
    by simp
  from t [of Map.empty ?convert False "[11, 21, 31]"
             "Map.empty(?file \<mapsto> [11, 21, 31])" "[?file]"] g lr
  have miss: "load_and_cache_examples ?a ?procs ?modes ?convert ?barrier Map.empty
               ''rte'' ''d0'' False False
             = Inr ([11, 21, 31], Map.empty(?file \<mapsto> [11, 21, 31]), [?file])"
    by simp
  from w [of "Map.empty(?file \<mapsto> [1, 2])"] l f hit miss show ?thesis by (intro conjI)
qed

text \<open>
  Claim C9 as stated fails in "writes them back to the cache": in a distributed run with
  \<open>overwrite_cache\<close> set, the process of rank 1 waits until the first process has written
  the cache file, then regenerates the features itself, since the flag rules out a cache
  hit, and returns them without writing any file.
\<close>

theorem regenerated_features_not_saved_counterexample:
  "overwrite_cache
     ((default_args ''d0'' ''bert'' ''bert-base-uncased'' ''rte'' ''out'')
        \<lparr>overwrite_cache := True, local_rank := 1\<rparr>)
   \<and> features_of
       (load_and_cache_examples
          ((default_args ''d0'' ''bert'' ''bert-base-uncased'' ''rte'' ''out'')
             \<lparr>overwrite_cache := True, local_rank := 1\<rparr>)
          (\<lambda>name. if name = ''rte''
             then Some \<lparr>get_labels = [''entailment'', ''not_entailment''],
                        get_train_examples = (\<lambda>d. Inr [10, 20, 30 :: nat]),
                        get_dev_examples = (\<lambda>d. Inr [40])\<rparr>
             else None)
          (\<lambda>name. if name = ''rte'' then Some ''classification'' else None)
          (\<lambda>labels mode examples. Inr (map Suc examples))
          (\<lambda>cache. Inr (cache(''d0/cached_train_bert-base-uncased_128_rte'' \<mapsto> [11, 21, 31])))
          (Map.empty(''d0/cached_train_bert-base-uncased_128_rte'' \<mapsto> [1, 2]))
          ''rte'' ''d0'' False False)
     = Some [11, 21, 31]
   \<and> files_saved
       (load_and_cache_examples
          ((default_args ''d0'' ''bert'' ''bert-base-uncased'' ''rte'' ''out'')
             \<lparr>overwrite_cache := True, local_rank := 1\<rparr>)
          (\<lambda>name. if name = ''rte''
             then Some \<lparr>get_labels = [''entailment'', ''not_entailment''],
                        get_train_examples = (\<lambda>d. Inr [10, 20, 30 :: nat]),
                        get_dev_examples = (\<lambda>d. Inr [40])\<rparr>
             else None)
          (\<lambda>name. if name = ''rte'' then Some ''classification'' else None)
          (\<lambda>labels mode examples. Inr (map Suc examples))
          (\<lambda>cache. Inr (cache(''d0/cached_train_bert-base-uncased_128_rte'' \<mapsto> [11, 21, 31])))
          (Map.empty(''d0/cached_train_bert-base-uncased_128_rte'' \<mapsto> [1, 2]))
          ''rte'' ''d0'' False False)
     = Some []
   \<and> cached_features_file
        ((default_args ''d0'' ''bert'' ''bert-base-uncased'' ''rte'' ''out'')
           \<lparr>overwrite_cache := True, local_rank := 1\<rparr>)
        ''rte'' ''d0'' False = Inr ''d0/cached_train_bert-base-uncased_128_rte''"
proof -
  have s128: "str_int 128 = ''128''"
    by (simp add: str_int_def str_nat.simps [of 128] str_nat.simps [of 12]
          str_nat.simps [of "Suc 0"] digit_char_def)
  show ?thesis
    by (simp add: features_of_def files_saved_def load_and_cache_examples_def
          wait_for_first_process_def load_or_create_features_def
          release_other_processes_def lookup_task_def
          cached_features_file_def regenerate_features_def label_list_for_def
          default_args_def path_join_def s128)
qed

end
